theory Spec2Isabelle
  imports Complex_Main
begin

section \<open>Exceptions, outcomes and counted loops\<close>

text \<open>
  The containers throw \<^verbatim>\<open>std::out_of_range\<close> from the element accessors and
  \<^verbatim>\<open>std::runtime_error\<close> from scalar division; both carry the message of the throw
  site. A failed \<^verbatim>\<open>static_assert\<close> rejects the instantiation at compile time; the
  model keeps it as a third kind of failure, so that a call with a wrong shape or a
  wrong number of arguments has no result.
\<close>

datatype exn =
    out_of_range string
  | runtime_error string
  | static_assert string

text \<open>The spec's names for the failure conditions.\<close>

fun OutOfRange :: "exn \<Rightarrow> bool" where
  "OutOfRange (out_of_range msg) = True"
| "OutOfRange e = False"

fun DivisionByZero :: "exn \<Rightarrow> bool" where
  "DivisionByZero (runtime_error msg) = True"
| "DivisionByZero e = False"

text \<open>
  A statement either completes in a state or throws in a state: the state at the
  throw is kept, since the objects the caller owns outlive the exception.
\<close>

datatype 's outcome = Returns 's | Throws exn 's

fun final_state :: "'s outcome \<Rightarrow> 's" where
  "final_state (Returns s) = s"
| "final_state (Throws e s) = s"

text \<open>
  \<^verbatim>\<open>for (size_t i = lo; i < n; ++i) body\<close>. The counter is a \<^verbatim>\<open>size_t\<close> that
  stays below \<open>n\<close>, so it never wraps and is a \<open>nat\<close> here.
\<close>

function for_loop :: "nat \<Rightarrow> nat \<Rightarrow> (nat \<Rightarrow> 's \<Rightarrow> 's outcome) \<Rightarrow> 's \<Rightarrow> 's outcome" where
  "for_loop i n body s =
     (if i < n
      then (case body i s of
              Throws e s' \<Rightarrow> Throws e s'
            | Returns s' \<Rightarrow> for_loop (Suc i) n body s')
      else Returns s)"
  by pat_completeness auto
termination
  by (relation "measure (\<lambda>(i, n, body, s). n - i)") auto

declare for_loop.simps [simp del]

section \<open>Matrix\<close>

text \<open>
  \<^verbatim>\<open>Matrix<T, Rows, Cols>\<close> has the single member
  \<^verbatim>\<open>std::array<std::array<T, Cols>, Rows> data\<close>: a list of rows. The template
  parameters \<open>Rows\<close> and \<open>Cols\<close> are arguments of every operation, and
  \<open>Matrix_shape\<close> says that a value has the shape its type gives it.
\<close>

type_synonym 'a Matrix = "'a list list"

definition Matrix_shape :: "nat \<Rightarrow> nat \<Rightarrow> 'a Matrix \<Rightarrow> bool" where
  "Matrix_shape Rows Cols data \<longleftrightarrow> length data = Rows \<and> list_all (\<lambda>row. length row = Cols) data"

text \<open>
  \<^verbatim>\<open>data[r][c] = v\<close>, the unchecked write of the constructor and of populate. Their
  loops keep \<open>r < Rows\<close> and \<open>c < Cols\<close>; outside that range the C++ is undefined and
  the model leaves the storage as it is.
\<close>

definition Matrix_store :: "'a Matrix \<Rightarrow> nat \<Rightarrow> nat \<Rightarrow> 'a \<Rightarrow> 'a Matrix" where
  "Matrix_store data r c v = data[r := (data ! r)[c := v]]"

text \<open>
  The default constructor: every cell is set to \<^verbatim>\<open>T{}\<close>. The member \<^verbatim>\<open>data\<close> has
  no initialiser, so for an arithmetic \<open>T\<close> the constructor starts from storage of the
  right shape whose contents are not determined: the argument \<open>raw\<close>.
\<close>

definition Matrix_ctor :: "nat \<Rightarrow> nat \<Rightarrow> ('a::zero) Matrix \<Rightarrow> 'a Matrix outcome" where
  "Matrix_ctor Rows Cols raw =
     for_loop 0 Rows (\<lambda>r.
       for_loop 0 Cols (\<lambda>c data. Returns (Matrix_store data r c 0)))
     raw"

text \<open>
  \<^verbatim>\<open>operator()(row, col) const\<close>: the bounds check, then the stored value.
\<close>

definition Matrix_at :: "nat \<Rightarrow> nat \<Rightarrow> 'a Matrix \<Rightarrow> nat \<Rightarrow> nat \<Rightarrow> exn + 'a" where
  "Matrix_at Rows Cols data row col =
     (if row \<ge> Rows \<or> col \<ge> Cols
      then Inl (out_of_range ''Matrix access out of bounds'')
      else Inr (data ! row ! col))"

text \<open>
  \<^verbatim>\<open>operator()(row, col)\<close> on a non-const matrix returns a reference after the same
  check; \<open>Matrix_at_assign\<close> is the assignment \<^verbatim>\<open>m(row, col) = v\<close> through it.
\<close>

definition Matrix_at_assign :: "nat \<Rightarrow> nat \<Rightarrow> 'a Matrix \<Rightarrow> nat \<Rightarrow> nat \<Rightarrow> 'a \<Rightarrow> exn + 'a Matrix" where
  "Matrix_at_assign Rows Cols data row col v =
     (if row \<ge> Rows \<or> col \<ge> Cols
      then Inl (out_of_range ''Matrix access out of bounds'')
      else Inr (data[row := (data ! row)[col := v]]))"

section \<open>Operators on Matrix\<close>

text \<open>
  What a call of an operator refers to: the receiver \<^verbatim>\<open>*this\<close>, the argument
  (\<^verbatim>\<open>other\<close> or \<^verbatim>\<open>scalar\<close>, taken by const reference) and the local
  \<^verbatim>\<open>result\<close> that is returned by value. The receiver and the argument belong to
  the caller, so the frame a call ends in shows what it did to them. Every operator
  takes, after its operands, the raw storage in which its \<^verbatim>\<open>result\<close> is built.
\<close>

record ('t, 'u, 'r) frame =
  this :: 't
  arg :: 'u
  result :: 'r

text \<open>The value a call returns, or the exception that leaves it.\<close>

fun returned :: "('t, 'u, 'r) frame outcome \<Rightarrow> exn + 'r" where
  "returned (Returns s) = Inr (result s)"
| "returned (Throws e s) = Inl e"

text \<open>
  An expression that may throw, evaluated in state \<open>s\<close>: the exception leaves the
  statement in \<open>s\<close>, a value goes on to the rest of the statement.
\<close>

definition evaluating :: "exn + 'v \<Rightarrow> 's \<Rightarrow> ('v \<Rightarrow> 's outcome) \<Rightarrow> 's outcome" where
  "evaluating x s rest = (case x of Inl e \<Rightarrow> Throws e s | Inr v \<Rightarrow> rest v)"

text \<open>
  \<^verbatim>\<open>Matrix<T, Rows, Cols> result;\<close> in a frame whose \<^verbatim>\<open>result\<close> is still raw: the
  default constructor runs on it.
\<close>

definition declare_result :: "('r \<Rightarrow> 'r outcome) \<Rightarrow> ('t, 'u, 'r) frame
    \<Rightarrow> (('t, 'u, 'r) frame \<Rightarrow> ('t, 'u, 'r) frame outcome) \<Rightarrow> ('t, 'u, 'r) frame outcome" where
  "declare_result ctor s rest =
     (case ctor (result s) of
        Throws e z \<Rightarrow> Throws e s
      | Returns z \<Rightarrow> rest (s\<lparr>result := z\<rparr>))"

text \<open>
  \<^verbatim>\<open>operator*\<close>: \<^verbatim>\<open>sum += (*this)(i, k) * other(k, j)\<close> for \<open>k\<close> ascending, then
  \<^verbatim>\<open>result(i, j) = sum\<close>. The pair of the inner loop is the frame and the local
  \<^verbatim>\<open>sum\<close>.
\<close>

definition Matrix_times_k :: "nat \<Rightarrow> nat \<Rightarrow> nat \<Rightarrow> nat \<Rightarrow> nat \<Rightarrow> nat \<Rightarrow> nat
    \<Rightarrow> ('a::{zero,plus,times} Matrix, 'a Matrix, 'a Matrix) frame \<times> 'a
    \<Rightarrow> (('a Matrix, 'a Matrix, 'a Matrix) frame \<times> 'a) outcome" where
  "Matrix_times_k Rows Cols OtherRows OtherCols i j k = (\<lambda>(s, sum_v).
     evaluating (Matrix_at Rows Cols (this s) i k) (s, sum_v) (\<lambda>a.
     evaluating (Matrix_at OtherRows OtherCols (arg s) k j) (s, sum_v) (\<lambda>b.
     Returns (s, sum_v + a * b))))"

definition Matrix_times_ij :: "nat \<Rightarrow> nat \<Rightarrow> nat \<Rightarrow> nat \<Rightarrow> nat \<Rightarrow> nat
    \<Rightarrow> ('a::{zero,plus,times} Matrix, 'a Matrix, 'a Matrix) frame
    \<Rightarrow> ('a Matrix, 'a Matrix, 'a Matrix) frame outcome" where
  "Matrix_times_ij Rows Cols OtherRows OtherCols i j s =
     (case for_loop 0 Cols (Matrix_times_k Rows Cols OtherRows OtherCols i j) (s, 0) of
        Throws e (s', sum_v) \<Rightarrow> Throws e s'
      | Returns (s', sum_v) \<Rightarrow>
          evaluating (Matrix_at_assign Rows OtherCols (result s') i j sum_v) s' (\<lambda>m.
          Returns (s'\<lparr>result := m\<rparr>)))"

definition Matrix_operator_times :: "nat \<Rightarrow> nat \<Rightarrow> nat \<Rightarrow> nat \<Rightarrow> 'a::{zero,plus,times} Matrix \<Rightarrow> 'a Matrix
    \<Rightarrow> 'a Matrix \<Rightarrow> ('a Matrix, 'a Matrix, 'a Matrix) frame outcome" where
  "Matrix_operator_times Rows Cols OtherRows OtherCols A B raw =
     (let s = \<lparr>this = A, arg = B, result = raw\<rparr> in
      if Cols \<noteq> OtherRows
      then Throws (static_assert
        ''Matrix multiplication dimension mismatch: Left matrix columns must equal Right matrix rows.'') s
      else declare_result (Matrix_ctor Rows OtherCols) s
        (for_loop 0 Rows (\<lambda>i.
           for_loop 0 OtherCols (Matrix_times_ij Rows Cols OtherRows OtherCols i))))"

text \<open>\<^verbatim>\<open>operator+\<close>: \<^verbatim>\<open>result(r, c) = (*this)(r, c) + other(r, c)\<close>.\<close>

definition Matrix_plus_rc :: "nat \<Rightarrow> nat \<Rightarrow> nat \<Rightarrow> nat
    \<Rightarrow> ('a::{zero,plus} Matrix, 'a Matrix, 'a Matrix) frame
    \<Rightarrow> ('a Matrix, 'a Matrix, 'a Matrix) frame outcome" where
  "Matrix_plus_rc Rows Cols r c s =
     evaluating (Matrix_at Rows Cols (this s) r c) s (\<lambda>a.
     evaluating (Matrix_at Rows Cols (arg s) r c) s (\<lambda>b.
     evaluating (Matrix_at_assign Rows Cols (result s) r c (a + b)) s (\<lambda>m.
     Returns (s\<lparr>result := m\<rparr>))))"

definition Matrix_operator_plus :: "nat \<Rightarrow> nat \<Rightarrow> 'a::{zero,plus} Matrix \<Rightarrow> 'a Matrix
    \<Rightarrow> 'a Matrix \<Rightarrow> ('a Matrix, 'a Matrix, 'a Matrix) frame outcome" where
  "Matrix_operator_plus Rows Cols A B raw =
     declare_result (Matrix_ctor Rows Cols)
       \<lparr>this = A, arg = B, result = raw\<rparr>
       (for_loop 0 Rows (\<lambda>r. for_loop 0 Cols (Matrix_plus_rc Rows Cols r)))"

text \<open>\<^verbatim>\<open>operator-\<close>: \<^verbatim>\<open>result(r, c) = (*this)(r, c) - other(r, c)\<close>.\<close>

definition Matrix_minus_rc :: "nat \<Rightarrow> nat \<Rightarrow> nat \<Rightarrow> nat
    \<Rightarrow> ('a::{zero,minus} Matrix, 'a Matrix, 'a Matrix) frame
    \<Rightarrow> ('a Matrix, 'a Matrix, 'a Matrix) frame outcome" where
  "Matrix_minus_rc Rows Cols r c s =
     evaluating (Matrix_at Rows Cols (this s) r c) s (\<lambda>a.
     evaluating (Matrix_at Rows Cols (arg s) r c) s (\<lambda>b.
     evaluating (Matrix_at_assign Rows Cols (result s) r c (a - b)) s (\<lambda>m.
     Returns (s\<lparr>result := m\<rparr>))))"

definition Matrix_operator_minus :: "nat \<Rightarrow> nat \<Rightarrow> 'a::{zero,minus} Matrix \<Rightarrow> 'a Matrix
    \<Rightarrow> 'a Matrix \<Rightarrow> ('a Matrix, 'a Matrix, 'a Matrix) frame outcome" where
  "Matrix_operator_minus Rows Cols A B raw =
     declare_result (Matrix_ctor Rows Cols)
       \<lparr>this = A, arg = B, result = raw\<rparr>
       (for_loop 0 Rows (\<lambda>r. for_loop 0 Cols (Matrix_minus_rc Rows Cols r)))"

text \<open>
  \<^verbatim>\<open>operator/\<close>. \<^verbatim>\<open>std::is_floating_point_v<T>\<close> and
  \<^verbatim>\<open>std::numeric_limits<T>::epsilon()\<close> are facts of the element type: they are the
  parameters \<open>is_floating_point\<close> and \<open>epsilon\<close>. \<^verbatim>\<open>if constexpr\<close> keeps one of
  the two checks; \<^verbatim>\<open>std::fabs\<close> is the absolute value of \<open>T\<close>. The division of
  \<open>T\<close> is the parameter \<open>divide_T\<close>: for an integer \<open>T\<close> the C++ quotient truncates
  toward zero, which the \<open>div\<close> of HOL's integers does not, so no operation of HOL
  stands in for it.
\<close>

definition Matrix_divide_rc :: "('a \<Rightarrow> 'a \<Rightarrow> 'a) \<Rightarrow> nat \<Rightarrow> nat \<Rightarrow> nat \<Rightarrow> nat
    \<Rightarrow> ('a::zero Matrix, 'a, 'a Matrix) frame
    \<Rightarrow> ('a Matrix, 'a, 'a Matrix) frame outcome" where
  "Matrix_divide_rc divide_T Rows Cols r c s =
     evaluating (Matrix_at Rows Cols (this s) r c) s (\<lambda>a.
     evaluating (Matrix_at_assign Rows Cols (result s) r c (divide_T a (arg s))) s (\<lambda>m.
     Returns (s\<lparr>result := m\<rparr>)))"

definition Matrix_operator_divide :: "bool \<Rightarrow> 'a \<Rightarrow> ('a \<Rightarrow> 'a \<Rightarrow> 'a) \<Rightarrow> nat \<Rightarrow> nat
    \<Rightarrow> 'a::{zero,abs,ord} Matrix \<Rightarrow> 'a
    \<Rightarrow> 'a Matrix \<Rightarrow> ('a Matrix, 'a, 'a Matrix) frame outcome" where
  "Matrix_operator_divide is_floating_point epsilon divide_T Rows Cols A scalar raw =
     (let s = \<lparr>this = A, arg = scalar, result = raw\<rparr> in
      if is_floating_point \<and> \<bar>scalar\<bar> < epsilon
      then Throws (runtime_error ''Matrix division by zero or near-zero scalar'') s
      else if \<not> is_floating_point \<and> scalar = 0
      then Throws (runtime_error ''Matrix division by zero scalar'') s
      else declare_result (Matrix_ctor Rows Cols) s
        (for_loop 0 Rows (\<lambda>r. for_loop 0 Cols (Matrix_divide_rc divide_T Rows Cols r))))"

text \<open>
  \<^verbatim>\<open>populate(args...)\<close>: the arguments, of whatever types, are converted by
  \<^verbatim>\<open>static_cast<T>\<close> into the array \<^verbatim>\<open>values\<close>, which the loops copy with
  \<^verbatim>\<open>data[r][c] = values[k++]\<close>. The state of the loops is \<open>data\<close> and \<open>k\<close>.
\<close>

definition Matrix_populate :: "nat \<Rightarrow> nat \<Rightarrow> ('b \<Rightarrow> 'a) \<Rightarrow> 'b list \<Rightarrow> 'a Matrix \<Rightarrow> 'a Matrix outcome" where
  "Matrix_populate Rows Cols static_cast args data =
     (if length args \<noteq> Rows * Cols
      then Throws (static_assert ''Incorrect number of arguments for populate'') data
      else
        let values = map static_cast args in
        case for_loop 0 Rows (\<lambda>r.
               for_loop 0 Cols (\<lambda>c (data, k).
                 Returns (Matrix_store data r c (values ! k), Suc k))) (data, 0) of
          Throws e (data', k) \<Rightarrow> Throws e data'
        | Returns (data', k) \<Rightarrow> Returns data')"


section \<open>Tensor3D\<close>

text \<open>
  \<^verbatim>\<open>Tensor3D<T, Depth, Rows, Cols>\<close> has the single member \<^verbatim>\<open>data\<close>, an array of
  \<open>Depth\<close> slices of \<open>Rows\<close> rows of \<open>Cols\<close> cells.
\<close>

type_synonym 'a Tensor3D = "'a list list list"

definition Tensor3D_shape :: "nat \<Rightarrow> nat \<Rightarrow> nat \<Rightarrow> 'a Tensor3D \<Rightarrow> bool" where
  "Tensor3D_shape Depth Rows Cols data \<longleftrightarrow>
     length data = Depth \<and> list_all (Matrix_shape Rows Cols) data"

text \<open>\<^verbatim>\<open>data[d][r][c] = v\<close>, unchecked.\<close>

definition Tensor3D_store :: "'a Tensor3D \<Rightarrow> nat \<Rightarrow> nat \<Rightarrow> nat \<Rightarrow> 'a \<Rightarrow> 'a Tensor3D" where
  "Tensor3D_store data d r c v = data[d := (data ! d)[r := (data ! d ! r)[c := v]]]"

text \<open>The default constructor, on raw storage as for the matrix.\<close>

definition Tensor3D_ctor :: "nat \<Rightarrow> nat \<Rightarrow> nat \<Rightarrow> ('a::zero) Tensor3D \<Rightarrow> 'a Tensor3D outcome" where
  "Tensor3D_ctor Depth Rows Cols raw =
     for_loop 0 Depth (\<lambda>d.
       for_loop 0 Rows (\<lambda>r.
         for_loop 0 Cols (\<lambda>c data. Returns (Tensor3D_store data d r c 0))))
     raw"

text \<open>\<^verbatim>\<open>operator()(depth, row, col) const\<close>.\<close>

definition Tensor3D_at :: "nat \<Rightarrow> nat \<Rightarrow> nat \<Rightarrow> 'a Tensor3D \<Rightarrow> nat \<Rightarrow> nat \<Rightarrow> nat \<Rightarrow> exn + 'a" where
  "Tensor3D_at Depth Rows Cols data depth row col =
     (if depth \<ge> Depth \<or> row \<ge> Rows \<or> col \<ge> Cols
      then Inl (out_of_range ''Tensor3D access out of bounds'')
      else Inr (data ! depth ! row ! col))"

text \<open>The assignment \<^verbatim>\<open>t(depth, row, col) = v\<close> through the non-const accessor.\<close>

definition Tensor3D_at_assign :: "nat \<Rightarrow> nat \<Rightarrow> nat \<Rightarrow> 'a Tensor3D \<Rightarrow> nat \<Rightarrow> nat \<Rightarrow> nat \<Rightarrow> 'a
    \<Rightarrow> exn + 'a Tensor3D" where
  "Tensor3D_at_assign Depth Rows Cols data depth row col v =
     (if depth \<ge> Depth \<or> row \<ge> Rows \<or> col \<ge> Cols
      then Inl (out_of_range ''Tensor3D access out of bounds'')
      else Inr (data[depth := (data ! depth)[row := (data ! depth ! row)[col := v]]]))"

text \<open>\<^verbatim>\<open>operator+\<close>: \<^verbatim>\<open>result(d, r, c) = (*this)(d, r, c) + other(d, r, c)\<close>.\<close>

definition Tensor3D_plus_drc :: "nat \<Rightarrow> nat \<Rightarrow> nat \<Rightarrow> nat \<Rightarrow> nat \<Rightarrow> nat
    \<Rightarrow> ('a::{zero,plus} Tensor3D, 'a Tensor3D, 'a Tensor3D) frame
    \<Rightarrow> ('a Tensor3D, 'a Tensor3D, 'a Tensor3D) frame outcome" where
  "Tensor3D_plus_drc Depth Rows Cols d r c s =
     evaluating (Tensor3D_at Depth Rows Cols (this s) d r c) s (\<lambda>a.
     evaluating (Tensor3D_at Depth Rows Cols (arg s) d r c) s (\<lambda>b.
     evaluating (Tensor3D_at_assign Depth Rows Cols (result s) d r c (a + b)) s (\<lambda>m.
     Returns (s\<lparr>result := m\<rparr>))))"

definition Tensor3D_operator_plus :: "nat \<Rightarrow> nat \<Rightarrow> nat \<Rightarrow> 'a::{zero,plus} Tensor3D \<Rightarrow> 'a Tensor3D
    \<Rightarrow> 'a Tensor3D \<Rightarrow> ('a Tensor3D, 'a Tensor3D, 'a Tensor3D) frame outcome" where
  "Tensor3D_operator_plus Depth Rows Cols A B raw =
     declare_result (Tensor3D_ctor Depth Rows Cols)
       \<lparr>this = A, arg = B, result = raw\<rparr>
       (for_loop 0 Depth (\<lambda>d.
          for_loop 0 Rows (\<lambda>r.
            for_loop 0 Cols (Tensor3D_plus_drc Depth Rows Cols d r))))"

text \<open>\<^verbatim>\<open>operator-\<close>: \<^verbatim>\<open>result(d, r, c) = (*this)(d, r, c) - other(d, r, c)\<close>.\<close>

definition Tensor3D_minus_drc :: "nat \<Rightarrow> nat \<Rightarrow> nat \<Rightarrow> nat \<Rightarrow> nat \<Rightarrow> nat
    \<Rightarrow> ('a::{zero,minus} Tensor3D, 'a Tensor3D, 'a Tensor3D) frame
    \<Rightarrow> ('a Tensor3D, 'a Tensor3D, 'a Tensor3D) frame outcome" where
  "Tensor3D_minus_drc Depth Rows Cols d r c s =
     evaluating (Tensor3D_at Depth Rows Cols (this s) d r c) s (\<lambda>a.
     evaluating (Tensor3D_at Depth Rows Cols (arg s) d r c) s (\<lambda>b.
     evaluating (Tensor3D_at_assign Depth Rows Cols (result s) d r c (a - b)) s (\<lambda>m.
     Returns (s\<lparr>result := m\<rparr>))))"

definition Tensor3D_operator_minus :: "nat \<Rightarrow> nat \<Rightarrow> nat \<Rightarrow> 'a::{zero,minus} Tensor3D \<Rightarrow> 'a Tensor3D
    \<Rightarrow> 'a Tensor3D \<Rightarrow> ('a Tensor3D, 'a Tensor3D, 'a Tensor3D) frame outcome" where
  "Tensor3D_operator_minus Depth Rows Cols A B raw =
     declare_result (Tensor3D_ctor Depth Rows Cols)
       \<lparr>this = A, arg = B, result = raw\<rparr>
       (for_loop 0 Depth (\<lambda>d.
          for_loop 0 Rows (\<lambda>r.
            for_loop 0 Cols (Tensor3D_minus_drc Depth Rows Cols d r))))"

text \<open>
  The member \<^verbatim>\<open>operator*(const T &scalar)\<close>:
  \<^verbatim>\<open>result(d, r, c) = (*this)(d, r, c) * scalar\<close>.
\<close>

definition Tensor3D_times_drc :: "nat \<Rightarrow> nat \<Rightarrow> nat \<Rightarrow> nat \<Rightarrow> nat \<Rightarrow> nat
    \<Rightarrow> ('a::{zero,times} Tensor3D, 'a, 'a Tensor3D) frame
    \<Rightarrow> ('a Tensor3D, 'a, 'a Tensor3D) frame outcome" where
  "Tensor3D_times_drc Depth Rows Cols d r c s =
     evaluating (Tensor3D_at Depth Rows Cols (this s) d r c) s (\<lambda>a.
     evaluating (Tensor3D_at_assign Depth Rows Cols (result s) d r c (a * arg s)) s (\<lambda>m.
     Returns (s\<lparr>result := m\<rparr>)))"

definition Tensor3D_operator_times :: "nat \<Rightarrow> nat \<Rightarrow> nat \<Rightarrow> 'a::{zero,times} Tensor3D \<Rightarrow> 'a
    \<Rightarrow> 'a Tensor3D \<Rightarrow> ('a Tensor3D, 'a, 'a Tensor3D) frame outcome" where
  "Tensor3D_operator_times Depth Rows Cols A scalar raw =
     declare_result (Tensor3D_ctor Depth Rows Cols)
       \<lparr>this = A, arg = scalar, result = raw\<rparr>
       (for_loop 0 Depth (\<lambda>d.
          for_loop 0 Rows (\<lambda>r.
            for_loop 0 Cols (Tensor3D_times_drc Depth Rows Cols d r))))"

text \<open>
  The free \<^verbatim>\<open>operator*(const T &scalar, const Tensor3D &tensor)\<close>:
  \<^verbatim>\<open>return tensor * scalar;\<close>. What it hands back is what the member call returns,
  built in the storage of its own return value.
\<close>

definition operator_times_scalar_Tensor3D :: "nat \<Rightarrow> nat \<Rightarrow> nat \<Rightarrow> 'a::{zero,times} \<Rightarrow> 'a Tensor3D
    \<Rightarrow> 'a Tensor3D \<Rightarrow> exn + 'a Tensor3D" where
  "operator_times_scalar_Tensor3D Depth Rows Cols scalar tensor raw =
     returned (Tensor3D_operator_times Depth Rows Cols tensor scalar raw)"

text \<open>
  \<^verbatim>\<open>operator/\<close>, with the same check as the matrix, its own messages, and the
  division of \<open>T\<close> as the parameter \<open>divide_T\<close>.
\<close>

definition Tensor3D_divide_drc :: "('a \<Rightarrow> 'a \<Rightarrow> 'a) \<Rightarrow> nat \<Rightarrow> nat \<Rightarrow> nat \<Rightarrow> nat \<Rightarrow> nat \<Rightarrow> nat
    \<Rightarrow> ('a::zero Tensor3D, 'a, 'a Tensor3D) frame
    \<Rightarrow> ('a Tensor3D, 'a, 'a Tensor3D) frame outcome" where
  "Tensor3D_divide_drc divide_T Depth Rows Cols d r c s =
     evaluating (Tensor3D_at Depth Rows Cols (this s) d r c) s (\<lambda>a.
     evaluating (Tensor3D_at_assign Depth Rows Cols (result s) d r c (divide_T a (arg s))) s (\<lambda>m.
     Returns (s\<lparr>result := m\<rparr>)))"

definition Tensor3D_operator_divide :: "bool \<Rightarrow> 'a \<Rightarrow> ('a \<Rightarrow> 'a \<Rightarrow> 'a) \<Rightarrow> nat \<Rightarrow> nat \<Rightarrow> nat
    \<Rightarrow> 'a::{zero,abs,ord} Tensor3D \<Rightarrow> 'a
    \<Rightarrow> 'a Tensor3D \<Rightarrow> ('a Tensor3D, 'a, 'a Tensor3D) frame outcome" where
  "Tensor3D_operator_divide is_floating_point epsilon divide_T Depth Rows Cols A scalar raw =
     (let s = \<lparr>this = A, arg = scalar, result = raw\<rparr> in
      if is_floating_point \<and> \<bar>scalar\<bar> < epsilon
      then Throws (runtime_error ''Tensor3D division by zero or near-zero scalar'') s
      else if \<not> is_floating_point \<and> scalar = 0
      then Throws (runtime_error ''Tensor3D division by zero scalar'') s
      else declare_result (Tensor3D_ctor Depth Rows Cols) s
        (for_loop 0 Depth (\<lambda>d.
           for_loop 0 Rows (\<lambda>r.
             for_loop 0 Cols (Tensor3D_divide_drc divide_T Depth Rows Cols d r)))))"

text \<open>\<^verbatim>\<open>populate(args...)\<close>: \<^verbatim>\<open>data[d][r][c] = values[k++]\<close> under the three loops.\<close>

definition Tensor3D_populate :: "nat \<Rightarrow> nat \<Rightarrow> nat \<Rightarrow> ('b \<Rightarrow> 'a) \<Rightarrow> 'b list \<Rightarrow> 'a Tensor3D
    \<Rightarrow> 'a Tensor3D outcome" where
  "Tensor3D_populate Depth Rows Cols static_cast args data =
     (if length args \<noteq> Depth * Rows * Cols
      then Throws (static_assert ''Incorrect number of arguments for populate'') data
      else
        let values = map static_cast args in
        case for_loop 0 Depth (\<lambda>d.
               for_loop 0 Rows (\<lambda>r.
                 for_loop 0 Cols (\<lambda>c (data, k).
                   Returns (Tensor3D_store data d r c (values ! k), Suc k)))) (data, 0) of
          Throws e (data', k) \<Rightarrow> Throws e data'
        | Returns (data', k) \<Rightarrow> Returns data')"

section \<open>Output streams and formatted printing\<close>

text \<open>
  The part of \<^verbatim>\<open>std::ostream\<close> the two \<^verbatim>\<open>operator<<\<close> touch, after the C++
  standard: the formatting state of \<^verbatim>\<open>std::ios_base\<close> and \<^verbatim>\<open>std::basic_ios\<close>
  (flags, width, precision, fill character, imbued locale) and the characters written
  so far. The stream is taken to be in a good state: no insertion fails.
\<close>

datatype fmtflag =
    ios_boolalpha | ios_dec | ios_fixed | ios_hex | ios_internal | ios_left | ios_oct
  | ios_right | ios_scientific | ios_showbase | ios_showpoint | ios_showpos | ios_skipws
  | ios_unitbuf | ios_uppercase

record ostream =
  flags :: "fmtflag set"
  width :: int
  precision :: int
  fill :: char
  getloc :: string
  written :: string

text \<open>What the printing code inserts: string literals, sizes and elements.\<close>

datatype 'a inserted = Chars string | Size nat | Element 'a

text \<open>
  A formatted insertion \<^verbatim>\<open>os << x\<close>. How \<open>x\<close> is rendered under the current
  formatting state is the library's business and is the parameter \<open>render\<close>; every
  formatted insertion ends with \<^verbatim>\<open>width(0)\<close>.
\<close>

definition ostream_insert :: "(ostream \<Rightarrow> 'v \<Rightarrow> string) \<Rightarrow> 'v \<Rightarrow> ostream \<Rightarrow> ostream" where
  "ostream_insert render x os = os\<lparr>written := written os @ render os x, width := 0\<rparr>"

text \<open>\<^verbatim>\<open>os << std::fixed\<close> is \<^verbatim>\<open>os.setf(fixed, floatfield)\<close>.\<close>

definition std_fixed :: "ostream \<Rightarrow> ostream" where
  "std_fixed os = os\<lparr>flags := (flags os - {ios_scientific, ios_fixed}) \<union> {ios_fixed}\<rparr>"

definition std_setprecision :: "int \<Rightarrow> ostream \<Rightarrow> ostream" where
  "std_setprecision n os = os\<lparr>precision := n\<rparr>"

definition std_setw :: "int \<Rightarrow> ostream \<Rightarrow> ostream" where
  "std_setw n os = os\<lparr>width := n\<rparr>"

text \<open>
  \<^verbatim>\<open>std::ios(nullptr)\<close>: \<^verbatim>\<open>basic_ios::init\<close> gives a new stream the flags
  \<^verbatim>\<open>skipws | dec\<close>, width 0, precision 6, fill \<^verbatim>\<open>' '\<close> and a copy of the global
  locale, which is the parameter \<open>global_locale\<close>.
\<close>

definition std_ios_nullptr :: "string \<Rightarrow> ostream" where
  "std_ios_nullptr global_locale =
     \<lparr>flags = {ios_skipws, ios_dec}, width = 0, precision = 6, fill = CHR '' '',
      getloc = global_locale, written = []\<rparr>"

text \<open>\<^verbatim>\<open>os.copyfmt(rhs)\<close> copies the formatting state of \<open>rhs\<close>, not its buffer.\<close>

definition copyfmt :: "ostream \<Rightarrow> ostream \<Rightarrow> ostream" where
  "copyfmt os rhs =
     os\<lparr>flags := flags rhs, width := width rhs, precision := precision rhs,
        fill := fill rhs, getloc := getloc rhs\<rparr>"

text \<open>
  \<^verbatim>\<open>operator<<(std::ostream &, const Matrix &)\<close>. One cell:
  \<^verbatim>\<open>os << std::setw(width) << matrix(r, c) << (c == Cols - 1 ? "" : ", ")\<close> with
  \<^verbatim>\<open>width = 8\<close>.
\<close>

definition Matrix_shift_c :: "(ostream \<Rightarrow> 'a inserted \<Rightarrow> string) \<Rightarrow> nat \<Rightarrow> nat \<Rightarrow> 'a Matrix
    \<Rightarrow> nat \<Rightarrow> nat \<Rightarrow> ostream \<Rightarrow> ostream outcome" where
  "Matrix_shift_c render Rows Cols matrix r c os =
     (let os = std_setw 8 os in
      evaluating (Matrix_at Rows Cols matrix r c) os (\<lambda>v.
      Returns (ostream_insert render (Chars (if c = Cols - 1 then [] else '', ''))
                (ostream_insert render (Element v) os))))"

definition Matrix_shift_r :: "(ostream \<Rightarrow> 'a inserted \<Rightarrow> string) \<Rightarrow> nat \<Rightarrow> nat \<Rightarrow> 'a Matrix
    \<Rightarrow> nat \<Rightarrow> ostream \<Rightarrow> ostream outcome" where
  "Matrix_shift_r render Rows Cols matrix r os =
     (case for_loop 0 Cols (Matrix_shift_c render Rows Cols matrix r)
             (ostream_insert render (Chars ''['') os) of
        Throws e os' \<Rightarrow> Throws e os'
      | Returns os' \<Rightarrow> Returns (ostream_insert render (Chars '' ]\<newline>'') os'))"

definition Matrix_operator_shift :: "(ostream \<Rightarrow> 'a inserted \<Rightarrow> string) \<Rightarrow> string \<Rightarrow> nat \<Rightarrow> nat
    \<Rightarrow> ostream \<Rightarrow> 'a Matrix \<Rightarrow> ostream outcome" where
  "Matrix_operator_shift render global_locale Rows Cols os matrix =
     (let os = ostream_insert render (Chars ''Matrix ('') os;
          os = ostream_insert render (Size Rows) os;
          os = ostream_insert render (Chars ''x'') os;
          os = ostream_insert render (Size Cols) os;
          os = ostream_insert render (Chars ''):\<newline>'') os;
          os = std_setprecision 2 (std_fixed os) in
      case for_loop 0 Rows (Matrix_shift_r render Rows Cols matrix) os of
        Throws e os' \<Rightarrow> Throws e os'
      | Returns os' \<Rightarrow> Returns (copyfmt os' (std_ios_nullptr global_locale)))"

text \<open>
  \<^verbatim>\<open>operator<<(std::ostream &, const Tensor3D &)\<close>: the flags are read into
  \<^verbatim>\<open>original_flags\<close> after the header and written back by
  \<^verbatim>\<open>os.flags(original_flags)\<close> at the end.
\<close>

definition Tensor3D_shift_c :: "(ostream \<Rightarrow> 'a inserted \<Rightarrow> string) \<Rightarrow> nat \<Rightarrow> nat \<Rightarrow> nat \<Rightarrow> 'a Tensor3D
    \<Rightarrow> nat \<Rightarrow> nat \<Rightarrow> nat \<Rightarrow> ostream \<Rightarrow> ostream outcome" where
  "Tensor3D_shift_c render Depth Rows Cols tensor d r c os =
     (let os = std_setw 8 os in
      evaluating (Tensor3D_at Depth Rows Cols tensor d r c) os (\<lambda>v.
      Returns (ostream_insert render (Chars (if c = Cols - 1 then [] else '', ''))
                (ostream_insert render (Element v) os))))"

definition Tensor3D_shift_r :: "(ostream \<Rightarrow> 'a inserted \<Rightarrow> string) \<Rightarrow> nat \<Rightarrow> nat \<Rightarrow> nat \<Rightarrow> 'a Tensor3D
    \<Rightarrow> nat \<Rightarrow> nat \<Rightarrow> ostream \<Rightarrow> ostream outcome" where
  "Tensor3D_shift_r render Depth Rows Cols tensor d r os =
     (case for_loop 0 Cols (Tensor3D_shift_c render Depth Rows Cols tensor d r)
             (ostream_insert render (Chars ''  ['') os) of
        Throws e os' \<Rightarrow> Throws e os'
      | Returns os' \<Rightarrow> Returns (ostream_insert render (Chars '' ]\<newline>'') os'))"

definition Tensor3D_shift_d :: "(ostream \<Rightarrow> 'a inserted \<Rightarrow> string) \<Rightarrow> nat \<Rightarrow> nat \<Rightarrow> nat \<Rightarrow> 'a Tensor3D
    \<Rightarrow> nat \<Rightarrow> ostream \<Rightarrow> ostream outcome" where
  "Tensor3D_shift_d render Depth Rows Cols tensor d os =
     (let os = ostream_insert render (Chars ''Depth Slice ['') os;
          os = ostream_insert render (Size d) os;
          os = ostream_insert render (Chars '']:\<newline>'') os in
      case for_loop 0 Rows (Tensor3D_shift_r render Depth Rows Cols tensor d) os of
        Throws e os' \<Rightarrow> Throws e os'
      | Returns os' \<Rightarrow>
          Returns (if d < Depth - 1 then ostream_insert render (Chars ''\<newline>'') os' else os'))"

definition Tensor3D_operator_shift :: "(ostream \<Rightarrow> 'a inserted \<Rightarrow> string) \<Rightarrow> nat \<Rightarrow> nat \<Rightarrow> nat
    \<Rightarrow> ostream \<Rightarrow> 'a Tensor3D \<Rightarrow> ostream outcome" where
  "Tensor3D_operator_shift render Depth Rows Cols os tensor =
     (let os = ostream_insert render (Chars ''Tensor3D ('') os;
          os = ostream_insert render (Size Depth) os;
          os = ostream_insert render (Chars ''x'') os;
          os = ostream_insert render (Size Rows) os;
          os = ostream_insert render (Chars ''x'') os;
          os = ostream_insert render (Size Cols) os;
          os = ostream_insert render (Chars ''):\<newline>'') os;
          original_flags = flags os;
          os = std_setprecision 2 (std_fixed os) in
      case for_loop 0 Depth (Tensor3D_shift_d render Depth Rows Cols tensor) os of
        Throws e os' \<Rightarrow> Throws e os'
      | Returns os' \<Rightarrow> Returns (os'\<lparr>flags := original_flags\<rparr>))"

section \<open>Vocabulary of the statements\<close>

text \<open>
  The container whose cell \<open>(r, c)\<close> holds \<open>g r c\<close>: what a pair of filling loops
  builds.
\<close>

definition Matrix_tabulate :: "nat \<Rightarrow> nat \<Rightarrow> (nat \<Rightarrow> nat \<Rightarrow> 'a) \<Rightarrow> 'a Matrix" where
  "Matrix_tabulate Rows Cols g = map (\<lambda>r. map (g r) [0..<Cols]) [0..<Rows]"

definition Tensor3D_tabulate :: "nat \<Rightarrow> nat \<Rightarrow> nat \<Rightarrow> (nat \<Rightarrow> nat \<Rightarrow> nat \<Rightarrow> 'a) \<Rightarrow> 'a Tensor3D" where
  "Tensor3D_tabulate Depth Rows Cols g = map (\<lambda>d. Matrix_tabulate Rows Cols (g d)) [0..<Depth]"

text \<open>
  The spec's dot product for cell \<open>(i, j)\<close> of a product: the sum starts from
  \<^verbatim>\<open>T{}\<close> and takes \<open>A(i, k) * B(k, j)\<close> for \<open>k\<close> ascending from \<open>0\<close> to
  \<open>Cols - 1\<close>, in the arithmetic of \<open>T\<close>.
\<close>

definition row_by_column :: "nat \<Rightarrow> 'a::{zero,plus,times} Matrix \<Rightarrow> 'a Matrix \<Rightarrow> nat \<Rightarrow> nat \<Rightarrow> 'a" where
  "row_by_column Cols A B i j = foldl (\<lambda>s k. s + A ! i ! k * B ! k ! j) 0 [0..<Cols]"

text \<open>The formatting state of a stream: flags, width, precision, fill and locale.\<close>

definition formatting :: "ostream \<Rightarrow> fmtflag set \<times> int \<times> int \<times> char \<times> string" where
  "formatting os = (flags os, width os, precision os, fill os, getloc os)"

text \<open>
  The division of the C++ integer types, after the C++ standard: the algebraic quotient
  with any fractional part discarded, so \<open>-7 / 2\<close> is \<open>-3\<close> where \<open>-7 div 2\<close> is
  \<open>-4\<close>. The divisor is not zero where the operators divide.
\<close>

definition int_quotient :: "int \<Rightarrow> int \<Rightarrow> int" where
  "int_quotient a b = (if (a < 0) = (b < 0) then \<bar>a\<bar> div \<bar>b\<bar> else - (\<bar>a\<bar> div \<bar>b\<bar>))"

text \<open>
  Three values of \<^verbatim>\<open>double\<close>, after IEEE 754: \<open>+0.0\<close>, \<open>-0.0\<close> and a NaN. Addition
  maps them among themselves: a sum with a NaN is a NaN, \<open>-0.0 + -0.0\<close> is \<open>-0.0\<close> and
  every other sum of zeros is \<open>+0.0\<close>. So they are an element type of their own, whose
  \<^verbatim>\<open>T{}\<close> is \<open>+0.0\<close>.
\<close>

datatype ieee_special = PosZero | NegZero | NaN

instantiation ieee_special :: "{zero,plus}"
begin

definition zero_ieee_special :: ieee_special where
  "zero_ieee_special = PosZero"

definition plus_ieee_special :: "ieee_special \<Rightarrow> ieee_special \<Rightarrow> ieee_special" where
  "plus_ieee_special a b =
     (if a = NaN \<or> b = NaN then NaN
      else if a = NegZero \<and> b = NegZero then NegZero
      else PosZero)"

instance ..

end

text \<open>
  \<^verbatim>\<open>a == b\<close> on these values: a NaN compares unequal to everything, itself included,
  and the two zeros compare equal.
\<close>

definition ieee_equal :: "ieee_special \<Rightarrow> ieee_special \<Rightarrow> bool" where
  "ieee_equal a b \<longleftrightarrow> a \<noteq> NaN \<and> b \<noteq> NaN"

text \<open>
  \<^verbatim>\<open>static_cast<int>(x)\<close> for a floating-point \<open>x\<close>, after the C++ standard: the
  fractional part is discarded. A finite \<^verbatim>\<open>double\<close> is read as the real number it
  denotes, and the result is taken to fit the integer type (the conversion is undefined
  otherwise).
\<close>

definition static_cast_double_to_int :: "real \<Rightarrow> int" where
  "static_cast_double_to_int x = (if 0 \<le> x then \<lfloor>x\<rfloor> else \<lceil>x\<rceil>)"

text \<open>
  A rendering for printing a concrete container: string literals as they are, and a
  mark in place of each number, whose digits the library would choose.
\<close>

fun render_literally :: "ostream \<Rightarrow> 'a inserted \<Rightarrow> string" where
  "render_literally os (Chars s) = s"
| "render_literally os (Size n) = ''#''"
| "render_literally os (Element v) = ''#''"

section \<open>Loop rules\<close>

lemma for_loop_done: "n \<le> i \<Longrightarrow> for_loop i n body s = Returns s"
  by (simp add: for_loop.simps)

lemma for_loop_step:
  "i < n \<Longrightarrow> body i s = Returns s' \<Longrightarrow> for_loop i n body s = for_loop (Suc i) n body s'"
  by (subst for_loop.simps) simp

text \<open>The invariant rule for a loop whose body completes on every index it is run at.\<close>

lemma for_loop_invariant:
  assumes "P i s" and "i \<le> n"
    and "\<And>j t. i \<le> j \<Longrightarrow> j < n \<Longrightarrow> P j t \<Longrightarrow> \<exists>t'. body j t = Returns t' \<and> P (Suc j) t'"
  shows "\<exists>t. for_loop i n body s = Returns t \<and> P n t"
  using assms
proof (induction "n - i" arbitrary: i s)
  case 0
  then show ?case by (auto simp: for_loop_done)
next
  case (Suc k)
  then have lt: "i < n" by simp
  from Suc.prems(3) [OF le_refl lt Suc.prems(1)]
  obtain t' where b: "body i s = Returns t'" and p: "P (Suc i) t'" by blast
  have "\<exists>t. for_loop (Suc i) n body t' = Returns t \<and> P n t"
  proof (rule Suc.hyps(1))
    show "k = n - Suc i" using Suc.hyps(2) by simp
    show "P (Suc i) t'" by (rule p)
    show "Suc i \<le> n" using lt by simp
    show "\<exists>t'. body j t = Returns t' \<and> P (Suc j) t'" if "Suc i \<le> j" "j < n" "P j t" for j t
      using Suc.prems(3) [of j t] that by simp
  qed
  moreover have "for_loop i n body s = for_loop (Suc i) n body t'"
    using lt b by (rule for_loop_step)
  ultimately show ?case by simp
qed


lemma for_loop_fold:
  assumes "i \<le> n"
    and "\<And>j t. i \<le> j \<Longrightarrow> j < n \<Longrightarrow> body j (emb j t) = Returns (emb (Suc j) (f j t))"
  shows "for_loop i n body (emb i t) = Returns (emb n (fold f [i..<n] t))"
  using assms
proof (induction "n - i" arbitrary: i t)
  case 0
  then show ?case by (simp add: for_loop_done)
next
  case (Suc k)
  then have lt: "i < n" by simp
  have b: "body i (emb i t) = Returns (emb (Suc i) (f i t))"
    using Suc.prems(2) [of i t] lt by simp
  have "for_loop (Suc i) n body (emb (Suc i) (f i t)) = Returns (emb n (fold f [Suc i..<n] (f i t)))"
  proof (rule Suc.hyps(1))
    show "k = n - Suc i" using Suc.hyps(2) by simp
    show "Suc i \<le> n" using lt by simp
    show "body j (emb j u) = Returns (emb (Suc j) (f j u))" if "Suc i \<le> j" "j < n" for j u
      using Suc.prems(2) [of j u] that by simp
  qed
  moreover have "for_loop i n body (emb i t) = for_loop (Suc i) n body (emb (Suc i) (f i t))"
    using lt b by (rule for_loop_step)
  ultimately show ?case using lt by (simp add: upt_conv_Cons)
qed

lemma for_loop2_fold:
  assumes step: "\<And>r c t. r < R \<Longrightarrow> c < C \<Longrightarrow> body r c (emb r c t) = Returns (emb r (Suc c) (w r c t))"
    and wrap: "\<And>r t. r < R \<Longrightarrow> emb r C t = emb (Suc r) 0 t"
  shows "for_loop 0 R (\<lambda>r. for_loop 0 C (body r)) (emb 0 0 t)
         = Returns (emb R 0 (fold (\<lambda>r. fold (w r) [0..<C]) [0..<R] t))"
proof (rule for_loop_fold [where emb = "\<lambda>r. emb r 0" and f = "\<lambda>r. fold (w r) [0..<C]"])
  show "0 \<le> R" by simp
  fix r t assume r: "r < R"
  have "for_loop 0 C (body r) (emb r 0 t) = Returns (emb r C (fold (w r) [0..<C] t))"
    by (rule for_loop_fold [where emb = "emb r"]) (simp_all add: step r)
  then show "for_loop 0 C (body r) (emb r 0 t) = Returns (emb (Suc r) 0 (fold (w r) [0..<C] t))"
    by (simp add: wrap r)
qed

lemma for_loop3_fold:
  assumes step: "\<And>d r c t. d < D \<Longrightarrow> r < R \<Longrightarrow> c < C \<Longrightarrow>
      body d r c (emb d r c t) = Returns (emb d r (Suc c) (w d r c t))"
    and wrap_c: "\<And>d r t. d < D \<Longrightarrow> r < R \<Longrightarrow> emb d r C t = emb d (Suc r) 0 t"
    and wrap_r: "\<And>d t. d < D \<Longrightarrow> emb d R 0 t = emb (Suc d) 0 0 t"
  shows "for_loop 0 D (\<lambda>d. for_loop 0 R (\<lambda>r. for_loop 0 C (body d r))) (emb 0 0 0 t)
         = Returns (emb D 0 0 (fold (\<lambda>d. fold (\<lambda>r. fold (w d r) [0..<C]) [0..<R]) [0..<D] t))"
proof (rule for_loop_fold [where emb = "\<lambda>d. emb d 0 0" and f = "\<lambda>d. fold (\<lambda>r. fold (w d r) [0..<C]) [0..<R]"])
  show "0 \<le> D" by simp
  fix d t assume d: "d < D"
  have "for_loop 0 R (\<lambda>r. for_loop 0 C (body d r)) (emb d 0 0 t)
        = Returns (emb d R 0 (fold (\<lambda>r. fold (w d r) [0..<C]) [0..<R] t))"
    by (rule for_loop2_fold [where emb = "emb d"]) (simp_all add: step wrap_c d)
  then show "for_loop 0 R (\<lambda>r. for_loop 0 C (body d r)) (emb d 0 0 t)
        = Returns (emb (Suc d) 0 0 (fold (\<lambda>r. fold (w d r) [0..<C]) [0..<R] t))"
    by (simp add: wrap_r d)
qed


section \<open>Filling a container cell by cell\<close>

lemma fold_overwrite:
  assumes "n \<le> length xs"
    and "\<And>i ys. i < n \<Longrightarrow> length ys = length xs \<Longrightarrow> ys ! i = xs ! i \<Longrightarrow> f i ys = ys[i := h i]"
  shows "fold f [0..<n] xs = map h [0..<n] @ drop n xs"
  using assms
proof (induction n)
  case 0
  then show ?case by simp
next
  case (Suc n)
  let ?ys = "map h [0..<n] @ drop n xs"
  have ih: "fold f [0..<n] xs = ?ys" using Suc by simp
  have len: "length ?ys = length xs" using Suc.prems(1) by simp
  have nth: "?ys ! n = xs ! n" using Suc.prems(1) by (simp add: nth_append)
  have step: "f n ?ys = ?ys[n := h n]" using Suc.prems(2) [of n ?ys] len nth by simp
  have d: "drop n xs = xs ! n # drop (Suc n) xs"
    using Suc.prems(1) by (simp add: Cons_nth_drop_Suc)
  have "?ys[n := h n] = map h [0..<n] @ (drop n xs)[0 := h n]"
    by (simp add: list_update_append)
  also have "\<dots> = map h [0..<n] @ h n # drop (Suc n) xs"
    by (subst d) simp
  finally have upd: "?ys[n := h n] = map h [0..<Suc n] @ drop (Suc n) xs" by simp
  have "fold f [0..<Suc n] xs = f n (fold f [0..<n] xs)" by simp
  then show ?case by (simp only: ih step upd)
qed

lemma fold_focus: "fold (\<lambda>c m. m[r := k c (m ! r)]) cs m = m[r := fold k cs (m ! r)]"
proof (induction cs arbitrary: m)
  case Nil
  then show ?case by simp
next
  case (Cons c cs)
  show ?case
  proof (cases "r < length m")
    case True
    then show ?thesis by (simp add: Cons.IH)
  next
    case False
    then show ?thesis by (simp add: Cons.IH list_update_beyond not_less)
  qed
qed

lemma fold_row_store:
  assumes "length row = C"
  shows "fold (\<lambda>c row. row[c := g c]) [0..<C] row = map g [0..<C]"
  using fold_overwrite [of C row "\<lambda>c row. row[c := g c]" g] assms by simp

lemma fold_Matrix_store_row:
  assumes "length (m ! r) = C"
  shows "fold (\<lambda>c m. Matrix_store m r c (g c)) [0..<C] m = m[r := map g [0..<C]]"
proof -
  have "fold (\<lambda>c m. Matrix_store m r c (g c)) [0..<C] m
        = fold (\<lambda>c m. m[r := (\<lambda>c row. row[c := g c]) c (m ! r)]) [0..<C] m"
    by (simp add: Matrix_store_def)
  also have "\<dots> = m[r := fold (\<lambda>c row. row[c := g c]) [0..<C] (m ! r)]"
    by (rule fold_focus)
  finally show ?thesis by (simp add: fold_row_store assms)
qed

lemma Matrix_shape_nth: "Matrix_shape R C m \<Longrightarrow> r < R \<Longrightarrow> length (m ! r) = C"
  by (simp add: Matrix_shape_def list_all_length)

lemma fold_Matrix_store:
  assumes "Matrix_shape R C m"
  shows "fold (\<lambda>r. fold (\<lambda>c m. Matrix_store m r c (g r c)) [0..<C]) [0..<R] m = Matrix_tabulate R C g"
proof -
  have "fold (\<lambda>r. fold (\<lambda>c m. Matrix_store m r c (g r c)) [0..<C]) [0..<R] m
        = map (\<lambda>r. map (g r) [0..<C]) [0..<R] @ drop R m"
  proof (rule fold_overwrite)
    show "R \<le> length m" using assms by (simp add: Matrix_shape_def)
    fix r ys assume "r < R" "length ys = length m" "ys ! r = m ! r"
    then have "length (ys ! r) = C" using assms by (simp add: Matrix_shape_nth)
    then show "fold (\<lambda>c m. Matrix_store m r c (g r c)) [0..<C] ys = ys[r := map (g r) [0..<C]]"
      by (rule fold_Matrix_store_row)
  qed
  then show ?thesis using assms by (simp add: Matrix_tabulate_def Matrix_shape_def)
qed

lemma Tensor3D_shape_nth: "Tensor3D_shape D R C t \<Longrightarrow> d < D \<Longrightarrow> Matrix_shape R C (t ! d)"
  by (simp add: Tensor3D_shape_def list_all_length)

lemma fold_Tensor3D_store_slice:
  assumes "Matrix_shape R C (t ! d)"
  shows "fold (\<lambda>r. fold (\<lambda>c t. Tensor3D_store t d r c (g r c)) [0..<C]) [0..<R] t
         = t[d := Matrix_tabulate R C g]"
proof -
  have inner: "fold (\<lambda>c t. Tensor3D_store t d r c (g r c)) [0..<C]
        = (\<lambda>t. t[d := fold (\<lambda>c m. Matrix_store m r c (g r c)) [0..<C] (t ! d)])" for r
  proof
    fix t :: "'a Tensor3D"
    have "fold (\<lambda>c t. Tensor3D_store t d r c (g r c)) [0..<C] t
          = fold (\<lambda>c t. t[d := (\<lambda>c m. Matrix_store m r c (g r c)) c (t ! d)]) [0..<C] t"
      by (simp add: Tensor3D_store_def Matrix_store_def)
    also have "\<dots> = t[d := fold (\<lambda>c m. Matrix_store m r c (g r c)) [0..<C] (t ! d)]"
      by (rule fold_focus)
    finally show "fold (\<lambda>c t. Tensor3D_store t d r c (g r c)) [0..<C] t
          = t[d := fold (\<lambda>c m. Matrix_store m r c (g r c)) [0..<C] (t ! d)]" .
  qed
  have "fold (\<lambda>r. fold (\<lambda>c t. Tensor3D_store t d r c (g r c)) [0..<C]) [0..<R] t
        = fold (\<lambda>r t. t[d := (\<lambda>r. fold (\<lambda>c m. Matrix_store m r c (g r c)) [0..<C]) r (t ! d)]) [0..<R] t"
    by (simp add: inner)
  also have "\<dots> = t[d := fold (\<lambda>r. fold (\<lambda>c m. Matrix_store m r c (g r c)) [0..<C]) [0..<R] (t ! d)]"
    by (rule fold_focus)
  finally show ?thesis by (simp add: fold_Matrix_store assms)
qed

lemma fold_Tensor3D_store:
  assumes "Tensor3D_shape D R C t"
  shows "fold (\<lambda>d. fold (\<lambda>r. fold (\<lambda>c t. Tensor3D_store t d r c (g d r c)) [0..<C]) [0..<R]) [0..<D] t
         = Tensor3D_tabulate D R C g"
proof -
  have "fold (\<lambda>d. fold (\<lambda>r. fold (\<lambda>c t. Tensor3D_store t d r c (g d r c)) [0..<C]) [0..<R]) [0..<D] t
        = map (\<lambda>d. Matrix_tabulate R C (g d)) [0..<D] @ drop D t"
  proof (rule fold_overwrite)
    show "D \<le> length t" using assms by (simp add: Tensor3D_shape_def)
    fix d ys assume "d < D" "length ys = length t" "ys ! d = t ! d"
    then have "Matrix_shape R C (ys ! d)" using assms by (simp add: Tensor3D_shape_nth)
    then show "fold (\<lambda>r. fold (\<lambda>c t. Tensor3D_store t d r c (g d r c)) [0..<C]) [0..<R] ys
               = ys[d := Matrix_tabulate R C (g d)]"
      by (rule fold_Tensor3D_store_slice)
  qed
  then show ?thesis using assms by (simp add: Tensor3D_tabulate_def Tensor3D_shape_def)
qed


section \<open>What the Matrix operations compute\<close>

lemma Matrix_tabulate_shape: "Matrix_shape R C (Matrix_tabulate R C g)"
  by (simp add: Matrix_shape_def Matrix_tabulate_def list_all_iff)

lemma Matrix_tabulate_nth: "r < R \<Longrightarrow> c < C \<Longrightarrow> Matrix_tabulate R C g ! r ! c = g r c"
  by (simp add: Matrix_tabulate_def)

lemma Matrix_at_tabulate:
  "r < R \<Longrightarrow> c < C \<Longrightarrow> Matrix_at R C (Matrix_tabulate R C g) r c = Inr (g r c)"
  by (simp add: Matrix_at_def Matrix_tabulate_nth)

text \<open>Whatever the raw storage holds, the constructor leaves zeros.\<close>

lemma Matrix_ctor_eq:
  assumes "Matrix_shape R C raw"
  shows "Matrix_ctor R C raw = Returns (Matrix_tabulate R C (\<lambda>r c. 0))"
proof -
  have "Matrix_ctor R C raw
        = Returns (fold (\<lambda>r. fold (\<lambda>c m. Matrix_store m r c 0) [0..<C]) [0..<R] raw)"
    unfolding Matrix_ctor_def
    by (rule for_loop2_fold [where emb = "\<lambda>r c m. m"]) simp_all
  then show ?thesis by (simp add: fold_Matrix_store assms)
qed

text \<open>Two loops that fill the result of a frame cell by cell.\<close>

lemma fill_Matrix_result:
  assumes "\<And>r c m. r < R \<Longrightarrow> c < C \<Longrightarrow>
      body r c \<lparr>this = A, arg = B, result = m\<rparr>
      = Returns \<lparr>this = A, arg = B, result = Matrix_store m r c (g r c)\<rparr>"
    and "Matrix_shape R C raw"
  shows "declare_result (Matrix_ctor R C) \<lparr>this = A, arg = B, result = raw\<rparr>
           (for_loop 0 R (\<lambda>r. for_loop 0 C (body r)))
         = Returns \<lparr>this = A, arg = B, result = Matrix_tabulate R C g\<rparr>"
proof -
  have "for_loop 0 R (\<lambda>r. for_loop 0 C (body r)) \<lparr>this = A, arg = B, result = Matrix_tabulate R C (\<lambda>r c. 0)\<rparr>
        = Returns \<lparr>this = A, arg = B, result =
            fold (\<lambda>r. fold (\<lambda>c m. Matrix_store m r c (g r c)) [0..<C]) [0..<R] (Matrix_tabulate R C (\<lambda>r c. 0))\<rparr>"
    by (rule for_loop2_fold [where emb = "\<lambda>r c m. \<lparr>this = A, arg = B, result = m\<rparr>"])
       (simp_all add: assms(1))
  then show ?thesis
    by (simp add: declare_result_def Matrix_ctor_eq [OF assms(2)] fold_Matrix_store Matrix_tabulate_shape)
qed

lemma Matrix_operator_plus_eq:
  assumes "Matrix_shape R C raw"
  shows "Matrix_operator_plus R C A B raw
   = Returns \<lparr>this = A, arg = B, result = Matrix_tabulate R C (\<lambda>r c. A ! r ! c + B ! r ! c)\<rparr>"
  unfolding Matrix_operator_plus_def
  by (rule fill_Matrix_result [OF _ assms])
     (simp add: Matrix_plus_rc_def evaluating_def Matrix_at_def Matrix_at_assign_def Matrix_store_def)

lemma Matrix_operator_minus_eq:
  assumes "Matrix_shape R C raw"
  shows "Matrix_operator_minus R C A B raw
   = Returns \<lparr>this = A, arg = B, result = Matrix_tabulate R C (\<lambda>r c. A ! r ! c - B ! r ! c)\<rparr>"
  unfolding Matrix_operator_minus_def
  by (rule fill_Matrix_result [OF _ assms])
     (simp add: Matrix_minus_rc_def evaluating_def Matrix_at_def Matrix_at_assign_def Matrix_store_def)

lemma Matrix_operator_divide_ok:
  assumes "\<not> (if fp then \<bar>k\<bar> < eps else k = 0)" and "Matrix_shape R C raw"
  shows "Matrix_operator_divide fp eps quot R C A k raw
   = Returns \<lparr>this = A, arg = k, result = Matrix_tabulate R C (\<lambda>r c. quot (A ! r ! c) k)\<rparr>"
proof -
  have "declare_result (Matrix_ctor R C) \<lparr>this = A, arg = k, result = raw\<rparr>
          (for_loop 0 R (\<lambda>r. for_loop 0 C (Matrix_divide_rc quot R C r)))
        = Returns \<lparr>this = A, arg = k, result = Matrix_tabulate R C (\<lambda>r c. quot (A ! r ! c) k)\<rparr>"
    by (rule fill_Matrix_result [OF _ assms(2)])
       (simp add: Matrix_divide_rc_def evaluating_def Matrix_at_def Matrix_at_assign_def Matrix_store_def)
  then show ?thesis
    using assms(1) by (auto simp: Matrix_operator_divide_def Let_def split: if_splits)
qed

lemma Matrix_operator_divide_fails:
  assumes "if fp then \<bar>k\<bar> < eps else k = 0"
  shows "Matrix_operator_divide fp eps quot R C A k raw
   = Throws (runtime_error (if fp then ''Matrix division by zero or near-zero scalar''
                            else ''Matrix division by zero scalar''))
       \<lparr>this = A, arg = k, result = raw\<rparr>"
  using assms by (auto simp: Matrix_operator_divide_def Let_def split: if_splits)

lemma Matrix_times_k_loop:
  assumes "i < R" "j < OC"
  shows "for_loop 0 K (Matrix_times_k R K K OC i j) (\<lparr>this = A, arg = B, result = m\<rparr>, 0)
         = Returns (\<lparr>this = A, arg = B, result = m\<rparr>, row_by_column K A B i j)"
proof -
  have "for_loop 0 K (Matrix_times_k R K K OC i j) (\<lparr>this = A, arg = B, result = m\<rparr>, 0)
        = Returns (\<lparr>this = A, arg = B, result = m\<rparr>,
            fold (\<lambda>k s. s + A ! i ! k * B ! k ! j) [0..<K] 0)"
    by (rule for_loop_fold [where emb = "\<lambda>k s. (\<lparr>this = A, arg = B, result = m\<rparr>, s)"])
       (use assms in \<open>simp_all add: Matrix_times_k_def evaluating_def Matrix_at_def\<close>)
  then show ?thesis by (simp add: row_by_column_def foldl_conv_fold)
qed

lemma Matrix_operator_times_eq:
  assumes "Matrix_shape R OC raw"
  shows "Matrix_operator_times R K K OC A B raw
   = Returns \<lparr>this = A, arg = B, result = Matrix_tabulate R OC (row_by_column K A B)\<rparr>"
proof -
  have "declare_result (Matrix_ctor R OC) \<lparr>this = A, arg = B, result = raw\<rparr>
          (for_loop 0 R (\<lambda>i. for_loop 0 OC (Matrix_times_ij R K K OC i)))
        = Returns \<lparr>this = A, arg = B, result = Matrix_tabulate R OC (row_by_column K A B)\<rparr>"
    by (rule fill_Matrix_result [OF _ assms])
       (simp add: Matrix_times_ij_def Matrix_times_k_loop evaluating_def Matrix_at_assign_def Matrix_store_def)
  then show ?thesis by (simp add: Matrix_operator_times_def)
qed

lemma Matrix_operator_times_mismatch:
  "K \<noteq> OR \<Longrightarrow> \<exists>msg. Matrix_operator_times R K OR OC A B raw
     = Throws (static_assert msg) \<lparr>this = A, arg = B, result = raw\<rparr>"
  by (simp add: Matrix_operator_times_def)

section \<open>What the Tensor3D operations compute\<close>

lemma Tensor3D_tabulate_shape: "Tensor3D_shape D R C (Tensor3D_tabulate D R C g)"
  by (simp add: Tensor3D_shape_def Tensor3D_tabulate_def list_all_iff Matrix_tabulate_shape)

lemma Tensor3D_tabulate_nth:
  "d < D \<Longrightarrow> r < R \<Longrightarrow> c < C \<Longrightarrow> Tensor3D_tabulate D R C g ! d ! r ! c = g d r c"
  by (simp add: Tensor3D_tabulate_def Matrix_tabulate_nth)

lemma Tensor3D_at_tabulate:
  "d < D \<Longrightarrow> r < R \<Longrightarrow> c < C \<Longrightarrow>
   Tensor3D_at D R C (Tensor3D_tabulate D R C g) d r c = Inr (g d r c)"
  by (simp add: Tensor3D_at_def Tensor3D_tabulate_nth)

lemma Tensor3D_ctor_eq:
  assumes "Tensor3D_shape D R C raw"
  shows "Tensor3D_ctor D R C raw = Returns (Tensor3D_tabulate D R C (\<lambda>d r c. 0))"
proof -
  have "Tensor3D_ctor D R C raw
        = Returns (fold (\<lambda>d. fold (\<lambda>r. fold (\<lambda>c t. Tensor3D_store t d r c 0) [0..<C]) [0..<R]) [0..<D] raw)"
    unfolding Tensor3D_ctor_def
    by (rule for_loop3_fold [where emb = "\<lambda>d r c t. t"]) simp_all
  then show ?thesis by (simp add: fold_Tensor3D_store assms)
qed

lemma fill_Tensor3D_result:
  assumes "\<And>d r c t. d < D \<Longrightarrow> r < R \<Longrightarrow> c < C \<Longrightarrow>
      body d r c \<lparr>this = A, arg = B, result = t\<rparr>
      = Returns \<lparr>this = A, arg = B, result = Tensor3D_store t d r c (g d r c)\<rparr>"
    and "Tensor3D_shape D R C raw"
  shows "declare_result (Tensor3D_ctor D R C) \<lparr>this = A, arg = B, result = raw\<rparr>
           (for_loop 0 D (\<lambda>d. for_loop 0 R (\<lambda>r. for_loop 0 C (body d r))))
         = Returns \<lparr>this = A, arg = B, result = Tensor3D_tabulate D R C g\<rparr>"
proof -
  have "for_loop 0 D (\<lambda>d. for_loop 0 R (\<lambda>r. for_loop 0 C (body d r)))
          \<lparr>this = A, arg = B, result = Tensor3D_tabulate D R C (\<lambda>d r c. 0)\<rparr>
        = Returns \<lparr>this = A, arg = B, result =
            fold (\<lambda>d. fold (\<lambda>r. fold (\<lambda>c t. Tensor3D_store t d r c (g d r c)) [0..<C]) [0..<R]) [0..<D]
              (Tensor3D_tabulate D R C (\<lambda>d r c. 0))\<rparr>"
    by (rule for_loop3_fold [where emb = "\<lambda>d r c t. \<lparr>this = A, arg = B, result = t\<rparr>"])
       (simp_all add: assms(1))
  then show ?thesis
    by (simp add: declare_result_def Tensor3D_ctor_eq [OF assms(2)] fold_Tensor3D_store
        Tensor3D_tabulate_shape)
qed

lemma Tensor3D_operator_plus_eq:
  assumes "Tensor3D_shape D R C raw"
  shows "Tensor3D_operator_plus D R C A B raw
   = Returns \<lparr>this = A, arg = B, result = Tensor3D_tabulate D R C (\<lambda>d r c. A ! d ! r ! c + B ! d ! r ! c)\<rparr>"
  unfolding Tensor3D_operator_plus_def
  by (rule fill_Tensor3D_result [OF _ assms])
     (simp add: Tensor3D_plus_drc_def evaluating_def Tensor3D_at_def Tensor3D_at_assign_def Tensor3D_store_def)

lemma Tensor3D_operator_minus_eq:
  assumes "Tensor3D_shape D R C raw"
  shows "Tensor3D_operator_minus D R C A B raw
   = Returns \<lparr>this = A, arg = B, result = Tensor3D_tabulate D R C (\<lambda>d r c. A ! d ! r ! c - B ! d ! r ! c)\<rparr>"
  unfolding Tensor3D_operator_minus_def
  by (rule fill_Tensor3D_result [OF _ assms])
     (simp add: Tensor3D_minus_drc_def evaluating_def Tensor3D_at_def Tensor3D_at_assign_def Tensor3D_store_def)

lemma Tensor3D_operator_times_eq:
  assumes "Tensor3D_shape D R C raw"
  shows "Tensor3D_operator_times D R C A k raw
   = Returns \<lparr>this = A, arg = k, result = Tensor3D_tabulate D R C (\<lambda>d r c. A ! d ! r ! c * k)\<rparr>"
  unfolding Tensor3D_operator_times_def
  by (rule fill_Tensor3D_result [OF _ assms])
     (simp add: Tensor3D_times_drc_def evaluating_def Tensor3D_at_def Tensor3D_at_assign_def Tensor3D_store_def)

lemma Tensor3D_operator_divide_ok:
  assumes "\<not> (if fp then \<bar>k\<bar> < eps else k = 0)" and "Tensor3D_shape D R C raw"
  shows "Tensor3D_operator_divide fp eps quot D R C A k raw
   = Returns \<lparr>this = A, arg = k, result = Tensor3D_tabulate D R C (\<lambda>d r c. quot (A ! d ! r ! c) k)\<rparr>"
proof -
  have "declare_result (Tensor3D_ctor D R C) \<lparr>this = A, arg = k, result = raw\<rparr>
          (for_loop 0 D (\<lambda>d. for_loop 0 R (\<lambda>r. for_loop 0 C (Tensor3D_divide_drc quot D R C d r))))
        = Returns \<lparr>this = A, arg = k, result = Tensor3D_tabulate D R C (\<lambda>d r c. quot (A ! d ! r ! c) k)\<rparr>"
    by (rule fill_Tensor3D_result [OF _ assms(2)])
       (simp add: Tensor3D_divide_drc_def evaluating_def Tensor3D_at_def Tensor3D_at_assign_def Tensor3D_store_def)
  then show ?thesis
    using assms(1) by (auto simp: Tensor3D_operator_divide_def Let_def split: if_splits)
qed

lemma Tensor3D_operator_divide_fails:
  assumes "if fp then \<bar>k\<bar> < eps else k = 0"
  shows "Tensor3D_operator_divide fp eps quot D R C A k raw
   = Throws (runtime_error (if fp then ''Tensor3D division by zero or near-zero scalar''
                            else ''Tensor3D division by zero scalar''))
       \<lparr>this = A, arg = k, result = raw\<rparr>"
  using assms by (auto simp: Tensor3D_operator_divide_def Let_def split: if_splits)

section \<open>What populate stores\<close>

lemma Matrix_populate_eq:
  assumes "Matrix_shape R C data" and "length args = R * C"
  shows "Matrix_populate R C static_cast args data
         = Returns (Matrix_tabulate R C (\<lambda>r c. map static_cast args ! (r * C + c)))"
proof -
  let ?vs = "map static_cast args"
  have "for_loop 0 R (\<lambda>r. for_loop 0 C (\<lambda>c (data, k).
          Returns (Matrix_store data r c (?vs ! k), Suc k))) (data, 0 * C + 0)
        = Returns (fold (\<lambda>r. fold (\<lambda>c m. Matrix_store m r c (?vs ! (r * C + c))) [0..<C]) [0..<R] data,
                   R * C + 0)"
    by (rule for_loop2_fold [where emb = "\<lambda>r c m. (m, r * C + c)"]) simp_all
  then show ?thesis
    using assms by (simp add: Matrix_populate_def fold_Matrix_store)
qed

lemma Matrix_populate_mismatch:
  "length args \<noteq> R * C \<Longrightarrow> \<exists>msg. Matrix_populate R C static_cast args data = Throws (static_assert msg) data"
  by (simp add: Matrix_populate_def)

lemma Tensor3D_populate_eq:
  assumes "Tensor3D_shape D R C data" and "length args = D * R * C"
  shows "Tensor3D_populate D R C static_cast args data
         = Returns (Tensor3D_tabulate D R C (\<lambda>d r c. map static_cast args ! ((d * R + r) * C + c)))"
proof -
  let ?vs = "map static_cast args"
  have "for_loop 0 D (\<lambda>d. for_loop 0 R (\<lambda>r. for_loop 0 C (\<lambda>c (data, k).
          Returns (Tensor3D_store data d r c (?vs ! k), Suc k)))) (data, (0 * R + 0) * C + 0)
        = Returns (fold (\<lambda>d. fold (\<lambda>r. fold (\<lambda>c t. Tensor3D_store t d r c (?vs ! ((d * R + r) * C + c)))
                     [0..<C]) [0..<R]) [0..<D] data,
                   (D * R + 0) * C + 0)"
    by (rule for_loop3_fold [where emb = "\<lambda>d r c t. (t, (d * R + r) * C + c)"]) simp_all
  then show ?thesis
    using assms by (simp add: Tensor3D_populate_def fold_Tensor3D_store)
qed

text \<open>Reading a filled container row after row gives the values back in order.\<close>

lemma map_nth_offset: "n + k \<le> length vs \<Longrightarrow> map (\<lambda>c. vs ! (n + c)) [0..<k] = take k (drop n vs)"
  by (rule nth_equalityI) simp_all

lemma concat_rows: "n + R * C \<le> length vs \<Longrightarrow>
  concat (map (\<lambda>r. map (\<lambda>c. vs ! (n + r * C + c)) [0..<C]) [0..<R]) = take (R * C) (drop n vs)"
proof (induction R)
  case 0
  then show ?case by simp
next
  case (Suc R)
  have "map (\<lambda>c. vs ! (n + R * C + c)) [0..<C] = take C (drop (n + R * C) vs)"
    using Suc.prems by (intro map_nth_offset) simp
  moreover have "take (R * C + C) (drop n vs)
                 = take (R * C) (drop n vs) @ take C (drop (n + R * C) vs)"
    by (simp only: take_add drop_drop add.commute [of n "R * C"])
  moreover have "Suc R * C = R * C + C" by simp
  ultimately show ?case using Suc by (simp del: mult_Suc)
qed

lemma concat_Matrix_tabulate:
  "length vs = R * C \<Longrightarrow> concat (Matrix_tabulate R C (\<lambda>r c. vs ! (r * C + c))) = vs"
  using concat_rows [of 0 R C vs] by (simp add: Matrix_tabulate_def)

lemma concat_slices: "D * (R * C) \<le> length vs \<Longrightarrow>
  concat (map (\<lambda>d. concat (Matrix_tabulate R C (\<lambda>r c. vs ! ((d * R + r) * C + c)))) [0..<D])
  = take (D * (R * C)) vs"
proof (induction D)
  case 0
  then show ?case by simp
next
  case (Suc D)
  have "concat (Matrix_tabulate R C (\<lambda>r c. vs ! ((D * R + r) * C + c)))
        = concat (map (\<lambda>r. map (\<lambda>c. vs ! (D * (R * C) + r * C + c)) [0..<C]) [0..<R])"
    by (simp add: Matrix_tabulate_def algebra_simps)
  also have "\<dots> = take (R * C) (drop (D * (R * C)) vs)"
    using Suc.prems by (intro concat_rows) simp
  finally have "concat (Matrix_tabulate R C (\<lambda>r c. vs ! ((D * R + r) * C + c)))
        = take (R * C) (drop (D * (R * C)) vs)" .
  moreover have "take (D * (R * C) + R * C) vs
                 = take (D * (R * C)) vs @ take (R * C) (drop (D * (R * C)) vs)"
    by (simp add: take_add)
  moreover have "Suc D * (R * C) = D * (R * C) + R * C" by simp
  ultimately show ?case using Suc by (simp del: mult_Suc)
qed

lemma concat_Tensor3D_tabulate:
  "length vs = D * R * C \<Longrightarrow>
   concat (map concat (Tensor3D_tabulate D R C (\<lambda>d r c. vs ! ((d * R + r) * C + c)))) = vs"
  using concat_slices [of D R C vs] by (simp add: Tensor3D_tabulate_def comp_def mult.assoc)

section \<open>Printing and the formatting state\<close>

lemma formatting_insert:
  "formatting (ostream_insert render x os) = (flags os, 0, precision os, fill os, getloc os)"
  by (simp add: formatting_def ostream_insert_def)

lemma Matrix_shift_c_formatting:
  assumes "r < Rows" "c < Cols" "formatting os = (F, 0, p, f, l)"
  shows "\<exists>os'. Matrix_shift_c render Rows Cols matrix r c os = Returns os'
           \<and> formatting os' = (F, 0, p, f, l)"
  using assms
  by (simp add: Matrix_shift_c_def evaluating_def Matrix_at_def Let_def formatting_def
      ostream_insert_def std_setw_def)

lemma Matrix_shift_r_formatting:
  assumes "r < Rows" "formatting os = (F, 0, p, f, l)"
  shows "\<exists>os'. Matrix_shift_r render Rows Cols matrix r os = Returns os'
           \<and> formatting os' = (F, 0, p, f, l)"
proof -
  have "formatting (ostream_insert render (Chars ''['') os) = (F, 0, p, f, l)"
    using assms(2) by (simp add: formatting_def ostream_insert_def)
  then have "\<exists>t. for_loop 0 Cols (Matrix_shift_c render Rows Cols matrix r)
                 (ostream_insert render (Chars ''['') os) = Returns t
             \<and> formatting t = (F, 0, p, f, l)"
    by (rule for_loop_invariant [where P = "\<lambda>c os. formatting os = (F, 0, p, f, l)"])
       (simp_all add: Matrix_shift_c_formatting assms(1))
  then obtain t where "for_loop 0 Cols (Matrix_shift_c render Rows Cols matrix r)
                 (ostream_insert render (Chars ''['') os) = Returns t"
    and "formatting t = (F, 0, p, f, l)" by blast
  then show ?thesis
    by (simp add: Matrix_shift_r_def formatting_def ostream_insert_def)
qed

lemma Matrix_shift_rows_formatting:
  assumes "formatting os = (F, 0, p, f, l)"
  shows "\<exists>os'. for_loop 0 Rows (Matrix_shift_r render Rows Cols matrix) os = Returns os'
           \<and> formatting os' = (F, 0, p, f, l)"
  using assms
  by (rule for_loop_invariant [where P = "\<lambda>r os. formatting os = (F, 0, p, f, l)"])
     (simp_all add: Matrix_shift_r_formatting)

lemma Matrix_operator_shift_formatting:
  "\<exists>os'. Matrix_operator_shift render global_locale Rows Cols os matrix = Returns os'
     \<and> formatting os' = ({ios_skipws, ios_dec}, 0, 6, CHR '' '', global_locale)"
proof -
  let ?os = "std_setprecision 2 (std_fixed
      (ostream_insert render (Chars ''):\<newline>'')
      (ostream_insert render (Size Cols)
      (ostream_insert render (Chars ''x'')
      (ostream_insert render (Size Rows)
      (ostream_insert render (Chars ''Matrix ('') os))))))"
  have "formatting ?os = (flags os - {ios_scientific, ios_fixed} \<union> {ios_fixed}, 0, 2, fill os, getloc os)"
    by (simp add: formatting_def ostream_insert_def std_fixed_def std_setprecision_def)
  from Matrix_shift_rows_formatting [OF this]
  obtain os' where "for_loop 0 Rows (Matrix_shift_r render Rows Cols matrix) ?os = Returns os'"
    by blast
  then show ?thesis
    by (simp add: Matrix_operator_shift_def Let_def formatting_def copyfmt_def std_ios_nullptr_def)
qed

lemma Tensor3D_shift_c_formatting:
  assumes "d < Depth" "r < Rows" "c < Cols" "formatting os = (F, 0, p, f, l)"
  shows "\<exists>os'. Tensor3D_shift_c render Depth Rows Cols tensor d r c os = Returns os'
           \<and> formatting os' = (F, 0, p, f, l)"
  using assms
  by (simp add: Tensor3D_shift_c_def evaluating_def Tensor3D_at_def Let_def formatting_def
      ostream_insert_def std_setw_def)

lemma Tensor3D_shift_r_formatting:
  assumes "d < Depth" "r < Rows" "formatting os = (F, 0, p, f, l)"
  shows "\<exists>os'. Tensor3D_shift_r render Depth Rows Cols tensor d r os = Returns os'
           \<and> formatting os' = (F, 0, p, f, l)"
proof -
  have "formatting (ostream_insert render (Chars ''  ['') os) = (F, 0, p, f, l)"
    using assms(3) by (simp add: formatting_def ostream_insert_def)
  then have "\<exists>t. for_loop 0 Cols (Tensor3D_shift_c render Depth Rows Cols tensor d r)
                 (ostream_insert render (Chars ''  ['') os) = Returns t
             \<and> formatting t = (F, 0, p, f, l)"
    by (rule for_loop_invariant [where P = "\<lambda>c os. formatting os = (F, 0, p, f, l)"])
       (simp_all add: Tensor3D_shift_c_formatting assms(1,2))
  then obtain t where "for_loop 0 Cols (Tensor3D_shift_c render Depth Rows Cols tensor d r)
                 (ostream_insert render (Chars ''  ['') os) = Returns t"
    and "formatting t = (F, 0, p, f, l)" by blast
  then show ?thesis
    by (simp add: Tensor3D_shift_r_def formatting_def ostream_insert_def)
qed

lemma Tensor3D_shift_d_formatting:
  assumes "d < Depth" "formatting os = (F, 0, p, f, l)"
  shows "\<exists>os'. Tensor3D_shift_d render Depth Rows Cols tensor d os = Returns os'
           \<and> formatting os' = (F, 0, p, f, l)"
proof -
  let ?os = "ostream_insert render (Chars '']:\<newline>'')
      (ostream_insert render (Size d)
      (ostream_insert render (Chars ''Depth Slice ['') os))"
  have "formatting ?os = (F, 0, p, f, l)"
    using assms(2) by (simp add: formatting_def ostream_insert_def)
  then have "\<exists>t. for_loop 0 Rows (Tensor3D_shift_r render Depth Rows Cols tensor d) ?os = Returns t
             \<and> formatting t = (F, 0, p, f, l)"
    by (rule for_loop_invariant [where P = "\<lambda>r os. formatting os = (F, 0, p, f, l)"])
       (simp_all add: Tensor3D_shift_r_formatting assms(1))
  then obtain t where "for_loop 0 Rows (Tensor3D_shift_r render Depth Rows Cols tensor d) ?os = Returns t"
    and "formatting t = (F, 0, p, f, l)" by blast
  then show ?thesis
    by (simp add: Tensor3D_shift_d_def Let_def formatting_def ostream_insert_def)
qed

lemma Tensor3D_operator_shift_formatting:
  "\<exists>os'. Tensor3D_operator_shift render Depth Rows Cols os tensor = Returns os'
     \<and> formatting os' = (flags os, 0, 2, fill os, getloc os)"
proof -
  let ?os = "std_setprecision 2 (std_fixed
      (ostream_insert render (Chars ''):\<newline>'')
      (ostream_insert render (Size Cols)
      (ostream_insert render (Chars ''x'')
      (ostream_insert render (Size Rows)
      (ostream_insert render (Chars ''x'')
      (ostream_insert render (Size Depth)
      (ostream_insert render (Chars ''Tensor3D ('') os))))))))"
  have "formatting ?os = (flags os - {ios_scientific, ios_fixed} \<union> {ios_fixed}, 0, 2, fill os, getloc os)"
    by (simp add: formatting_def ostream_insert_def std_fixed_def std_setprecision_def)
  then have "\<exists>t. for_loop 0 Depth (Tensor3D_shift_d render Depth Rows Cols tensor) ?os = Returns t
     \<and> formatting t = (flags os - {ios_scientific, ios_fixed} \<union> {ios_fixed}, 0, 2, fill os, getloc os)"
    by (rule for_loop_invariant [where P = "\<lambda>d t. formatting t
          = (flags os - {ios_scientific, ios_fixed} \<union> {ios_fixed}, 0, 2, fill os, getloc os)"])
       (simp_all add: Tensor3D_shift_d_formatting)
  then obtain t where "for_loop 0 Depth (Tensor3D_shift_d render Depth Rows Cols tensor) ?os = Returns t"
    and "formatting t = (flags os - {ios_scientific, ios_fixed} \<union> {ios_fixed}, 0, 2, fill os, getloc os)"
    by blast
  then show ?thesis
    by (simp add: Tensor3D_operator_shift_def Let_def formatting_def ostream_insert_def)
qed

section \<open>Cells of a filled container\<close>

lemma Matrix_tabulate_cells: "Matrix_shape R C m \<Longrightarrow> Matrix_tabulate R C (\<lambda>r c. m ! r ! c) = m"
proof -
  assume s: "Matrix_shape R C m"
  have "map (\<lambda>r. map (\<lambda>c. m ! r ! c) [0..<C]) [0..<R] = map (\<lambda>r. m ! r) [0..<R]"
  proof (rule map_cong [OF refl])
    fix r assume "r \<in> set [0..<R]"
    then have "length (m ! r) = C" using s by (simp add: Matrix_shape_nth)
    then show "map (\<lambda>c. m ! r ! c) [0..<C] = m ! r" using map_nth [of "m ! r"] by simp
  qed
  also have "\<dots> = m" using s map_nth [of m] by (simp add: Matrix_shape_def)
  finally show ?thesis by (simp add: Matrix_tabulate_def)
qed

lemma Tensor3D_tabulate_cells:
  "Tensor3D_shape D R C t \<Longrightarrow> Tensor3D_tabulate D R C (\<lambda>d r c. t ! d ! r ! c) = t"
proof -
  assume s: "Tensor3D_shape D R C t"
  have "map (\<lambda>d. Matrix_tabulate R C (\<lambda>r c. t ! d ! r ! c)) [0..<D] = map (\<lambda>d. t ! d) [0..<D]"
  proof (rule map_cong [OF refl])
    fix d assume "d \<in> set [0..<D]"
    then have "Matrix_shape R C (t ! d)" using s by (simp add: Tensor3D_shape_nth)
    then show "Matrix_tabulate R C (\<lambda>r c. t ! d ! r ! c) = t ! d" by (rule Matrix_tabulate_cells)
  qed
  also have "\<dots> = t" using s map_nth [of t] by (simp add: Tensor3D_shape_def)
  finally show ?thesis by (simp add: Tensor3D_tabulate_def)
qed

lemma cell_index_Matrix: "r < R \<Longrightarrow> c < C \<Longrightarrow> r * C + c < R * (C :: nat)"
proof -
  assume "r < R" "c < C"
  then have "r * C + c < Suc r * C" by simp
  also have "\<dots> \<le> R * C" using \<open>r < R\<close> by (intro mult_le_mono1) simp
  finally show ?thesis .
qed

lemma cell_index_Tensor3D:
  "d < D \<Longrightarrow> r < R \<Longrightarrow> c < C \<Longrightarrow> (d * R + r) * C + c < D * R * (C :: nat)"
  using cell_index_Matrix [of "d * R + r" "D * R" c C] cell_index_Matrix [of d D r R]
  by simp

lemma Matrix_tabulate_cong:
  assumes "\<And>r c. r < R \<Longrightarrow> c < C \<Longrightarrow> f r c = g r c"
  shows "Matrix_tabulate R C f = Matrix_tabulate R C g"
  unfolding Matrix_tabulate_def
  by (intro map_cong refl) (simp add: assms)

lemma Tensor3D_tabulate_cong:
  assumes "\<And>d r c. d < D \<Longrightarrow> r < R \<Longrightarrow> c < C \<Longrightarrow> f d r c = g d r c"
  shows "Tensor3D_tabulate D R C f = Tensor3D_tabulate D R C g"
  unfolding Tensor3D_tabulate_def
  by (intro map_cong refl Matrix_tabulate_cong) (simp add: assms)

text \<open>Adding the container of zeros: every cell gets \<open>+ 0\<close>.\<close>

lemma Matrix_plus_zeros:
  assumes "Matrix_shape R C raw"
  shows "Matrix_operator_plus R C m (Matrix_tabulate R C (\<lambda>r c. 0)) raw
         = Returns \<lparr>this = m, arg = Matrix_tabulate R C (\<lambda>r c. 0),
             result = Matrix_tabulate R C (\<lambda>r c. m ! r ! c + 0)\<rparr>"
proof -
  have "Matrix_tabulate R C (\<lambda>r c. m ! r ! c + Matrix_tabulate R C (\<lambda>r c. 0) ! r ! c)
        = Matrix_tabulate R C (\<lambda>r c. m ! r ! c + 0)"
    by (rule Matrix_tabulate_cong) (simp add: Matrix_tabulate_nth)
  then show ?thesis by (simp add: Matrix_operator_plus_eq [OF assms])
qed

lemma Tensor3D_plus_zeros:
  assumes "Tensor3D_shape D R C raw"
  shows "Tensor3D_operator_plus D R C t (Tensor3D_tabulate D R C (\<lambda>d r c. 0)) raw
         = Returns \<lparr>this = t, arg = Tensor3D_tabulate D R C (\<lambda>d r c. 0),
             result = Tensor3D_tabulate D R C (\<lambda>d r c. t ! d ! r ! c + 0)\<rparr>"
proof -
  have "Tensor3D_tabulate D R C (\<lambda>d r c. t ! d ! r ! c + Tensor3D_tabulate D R C (\<lambda>d r c. 0) ! d ! r ! c)
        = Tensor3D_tabulate D R C (\<lambda>d r c. t ! d ! r ! c + 0)"
    by (rule Tensor3D_tabulate_cong) (simp add: Tensor3D_tabulate_nth)
  then show ?thesis by (simp add: Tensor3D_operator_plus_eq [OF assms])
qed

section \<open>The claims\<close>

text \<open>
  C1. For a Matrix \<open>A\<close> of shape \<open>Rows \<times> Cols\<close> and a Matrix \<open>B\<close> of shape
  \<open>OtherRows \<times> OtherCols\<close> with \<open>Cols = OtherRows\<close>, the product \<open>A * B\<close> is
  returned, has shape \<open>Rows \<times> OtherCols\<close>, and its entry \<open>(i, j)\<close> is the sum of
  \<open>A(i, k) * B(k, j)\<close> started from \<^verbatim>\<open>T{}\<close> and accumulated for \<open>k\<close> ascending from
  \<open>0\<close> to \<open>Cols - 1\<close> in the arithmetic of \<open>T\<close>, for all \<open>i < Rows\<close> and
  \<open>j < OtherCols\<close>. The instance below is the repository's own test, the \<open>4 \<times> 4\<close>
  identity times the column \<open>(1, 2, 3, 4)\<close>, with sevens as the raw contents of the
  result.
\<close>

theorem Matrix_operator_times_dot_product:
  assumes "Cols = OtherRows"
    and "Matrix_shape Rows Cols A"
    and "Matrix_shape OtherRows OtherCols B"
    and "Matrix_shape Rows OtherCols raw"
  shows "\<exists>P. returned (Matrix_operator_times Rows Cols OtherRows OtherCols A B raw) = Inr P
           \<and> Matrix_shape Rows OtherCols P
           \<and> (\<forall>i<Rows. \<forall>j<OtherCols.
                 Matrix_at Rows OtherCols P i j = Inr (row_by_column Cols A B i j))"
proof -
  have "returned (Matrix_operator_times Rows Cols OtherRows OtherCols A B raw)
        = Inr (Matrix_tabulate Rows OtherCols (row_by_column Cols A B))"
    using assms(1) by (simp add: Matrix_operator_times_eq [OF assms(4)])
  then show ?thesis
    by (simp add: Matrix_tabulate_shape Matrix_at_tabulate)
qed

theorem Matrix_operator_times_dot_product_witness:
  "Matrix_shape 4 4 [[1, 0, 0, 0], [0, 1, 0, 0], [0, 0, 1, 0], [0, 0, 0, 1 :: int]]
   \<and> Matrix_shape 4 1 [[1], [2], [3], [4 :: int]]
   \<and> Matrix_shape 4 1 [[7], [7], [7], [7 :: int]]
   \<and> (\<exists>P. returned (Matrix_operator_times 4 4 4 1
               [[1, 0, 0, 0], [0, 1, 0, 0], [0, 0, 1, 0], [0, 0, 0, 1]]
               [[1], [2], [3], [4 :: int]] [[7], [7], [7], [7]]) = Inr P
          \<and> Matrix_shape 4 1 P
          \<and> Matrix_at 4 1 P 0 0 = Inr 1 \<and> Matrix_at 4 1 P 1 0 = Inr 2
          \<and> Matrix_at 4 1 P 2 0 = Inr 3 \<and> Matrix_at 4 1 P 3 0 = Inr 4)"
proof -
  let ?A = "[[1, 0, 0, 0], [0, 1, 0, 0], [0, 0, 1, 0], [0, 0, 0, 1 :: int]]"
  let ?B = "[[1], [2], [3], [4 :: int]]"
  let ?raw = "[[7], [7], [7], [7 :: int]]"
  have sA: "Matrix_shape 4 4 ?A" and sB: "Matrix_shape 4 1 ?B" and sR: "Matrix_shape 4 1 ?raw"
    by (simp_all add: Matrix_shape_def)
  have up: "[0..<4] = [0, 1, 2, 3]" by (simp add: upt_conv_Cons)
  have dots: "row_by_column 4 ?A ?B 0 0 = 1" "row_by_column 4 ?A ?B 1 0 = 2"
    "row_by_column 4 ?A ?B 2 0 = 3" "row_by_column 4 ?A ?B 3 0 = 4"
    by (simp_all add: row_by_column_def up)
  from Matrix_operator_times_dot_product [OF refl sA sB sR]
  obtain P where P: "returned (Matrix_operator_times 4 4 4 1 ?A ?B ?raw) = Inr P"
      "Matrix_shape 4 1 P"
      "\<forall>i<4. \<forall>j<1. Matrix_at 4 1 P i j = Inr (row_by_column 4 ?A ?B i j)"
    by blast
  from P(3) have "Matrix_at 4 1 P 0 0 = Inr 1" "Matrix_at 4 1 P 1 0 = Inr 2"
    "Matrix_at 4 1 P 2 0 = Inr 3" "Matrix_at 4 1 P 3 0 = Inr 4"
    using dots by simp_all
  with P(1,2) sA sB sR show ?thesis by simp
qed

text \<open>
  C2. Scalar division of a Matrix or a Tensor3D fails with a DivisionByZero condition
  if and only if the scalar is \<open>0\<close> for an integer \<open>T\<close>, or its absolute value is below
  the machine epsilon of \<open>T\<close> for a floating-point \<open>T\<close>. The check comes once, before
  the result is constructed or any element is divided: a failing call leaves the
  storage of its result raw. A call that passes the check returns the container whose
  every cell is the quotient, by the division of \<open>T\<close>, of the cell of the receiver and
  the scalar. The instance below has \<^verbatim>\<open>int\<close> cells under the truncating quotient of
  C++, with negative and inexact quotients, and \<^verbatim>\<open>double\<close> cells read as reals, with
  quotients that are exact in binary, under the epsilon \<open>2\<^sup>-\<^sup>5\<^sup>2\<close>.
\<close>

theorem divide_by_scalar_checked_once:
  assumes "Matrix_shape Rows Cols m" and "Matrix_shape Rows Cols raw"
    and "Tensor3D_shape Depth TRows TCols t" and "Tensor3D_shape Depth TRows TCols traw"
  shows "((\<exists>e. returned (Matrix_operator_divide is_floating_point epsilon divide_T Rows Cols m s raw)
                = Inl e \<and> DivisionByZero e)
          \<longleftrightarrow> (if is_floating_point then \<bar>s\<bar> < epsilon else s = 0))
       \<and> ((if is_floating_point then \<bar>s\<bar> < epsilon else s = 0) \<longrightarrow>
            (\<exists>e. Matrix_operator_divide is_floating_point epsilon divide_T Rows Cols m s raw
                  = Throws e \<lparr>this = m, arg = s, result = raw\<rparr>))
       \<and> (\<not> (if is_floating_point then \<bar>s\<bar> < epsilon else s = 0) \<longrightarrow>
            (\<exists>q. returned (Matrix_operator_divide is_floating_point epsilon divide_T Rows Cols m s raw)
                = Inr q
               \<and> Matrix_shape Rows Cols q
               \<and> (\<forall>r<Rows. \<forall>c<Cols. Matrix_at Rows Cols q r c = Inr (divide_T (m ! r ! c) s))))
       \<and> ((\<exists>e. returned (Tensor3D_operator_divide is_floating_point epsilon divide_T
                    Depth TRows TCols t s traw) = Inl e \<and> DivisionByZero e)
          \<longleftrightarrow> (if is_floating_point then \<bar>s\<bar> < epsilon else s = 0))
       \<and> ((if is_floating_point then \<bar>s\<bar> < epsilon else s = 0) \<longrightarrow>
            (\<exists>e. Tensor3D_operator_divide is_floating_point epsilon divide_T Depth TRows TCols t s traw
                  = Throws e \<lparr>this = t, arg = s, result = traw\<rparr>))
       \<and> (\<not> (if is_floating_point then \<bar>s\<bar> < epsilon else s = 0) \<longrightarrow>
            (\<exists>q. returned (Tensor3D_operator_divide is_floating_point epsilon divide_T
                    Depth TRows TCols t s traw) = Inr q
               \<and> Tensor3D_shape Depth TRows TCols q
               \<and> (\<forall>d<Depth. \<forall>r<TRows. \<forall>c<TCols.
                     Tensor3D_at Depth TRows TCols q d r c = Inr (divide_T (t ! d ! r ! c) s))))"
proof (cases "if is_floating_point then \<bar>s\<bar> < epsilon else s = 0")
  case True
  show ?thesis
    using True
    by (simp only: Matrix_operator_divide_fails [OF True] Tensor3D_operator_divide_fails [OF True])
       simp
next
  case False
  show ?thesis
    using False
    by (simp only: Matrix_operator_divide_ok [OF False assms(2)]
          Tensor3D_operator_divide_ok [OF False assms(4)])
       (simp add: Matrix_tabulate_shape Matrix_at_tabulate Tensor3D_tabulate_shape Tensor3D_at_tabulate)
qed

theorem divide_by_scalar_checked_once_witness:
  "Matrix_shape 1 2 [[-7, 7 :: int]] \<and> Matrix_shape 1 2 [[8, 8 :: int]]
   \<and> Tensor3D_shape 1 1 2 [[[9, -9 :: int]]] \<and> Tensor3D_shape 1 1 2 [[[8, 8 :: int]]]
   \<and> (\<exists>q. returned (Matrix_operator_divide False 0 int_quotient 1 2 [[-7, 7 :: int]] 2 [[8, 8]]) = Inr q
          \<and> Matrix_at 1 2 q 0 0 = Inr (-3) \<and> Matrix_at 1 2 q 0 1 = Inr 3)
   \<and> (\<exists>q. returned (Tensor3D_operator_divide False 0 int_quotient 1 1 2 [[[9, -9 :: int]]] (-4) [[[8, 8]]])
            = Inr q
          \<and> Tensor3D_at 1 1 2 q 0 0 0 = Inr (-2) \<and> Tensor3D_at 1 1 2 q 0 0 1 = Inr 2)
   \<and> (\<exists>e. returned (Matrix_operator_divide False 0 int_quotient 1 2 [[-7, 7 :: int]] 0 [[8, 8]]) = Inl e
          \<and> DivisionByZero e)
   \<and> (\<exists>e. returned (Tensor3D_operator_divide False 0 int_quotient 1 1 2 [[[9, -9 :: int]]] 0 [[[8, 8]]])
            = Inl e
          \<and> DivisionByZero e)
   \<and> Matrix_shape 1 2 [[1, -3 :: real]] \<and> Matrix_shape 1 2 [[8, 8 :: real]]
   \<and> Tensor3D_shape 1 1 1 [[[5 :: real]]] \<and> Tensor3D_shape 1 1 1 [[[8 :: real]]]
   \<and> (\<exists>q. returned (Matrix_operator_divide True (1 / 2 ^ 52) (/) 1 2 [[1, -3 :: real]] 2 [[8, 8]]) = Inr q
          \<and> Matrix_at 1 2 q 0 0 = Inr (1 / 2) \<and> Matrix_at 1 2 q 0 1 = Inr (- (3 / 2)))
   \<and> (\<exists>e. returned (Tensor3D_operator_divide True (1 / 2 ^ 52) (/) 1 1 1 [[[5 :: real]]]
               (- (1 / 2 ^ 53)) [[[8]]]) = Inl e
          \<and> DivisionByZero e)"
proof -
  have si: "Matrix_shape 1 2 [[-7, 7 :: int]]" "Matrix_shape 1 2 [[8, 8 :: int]]"
      "Tensor3D_shape 1 1 2 [[[9, -9 :: int]]]" "Tensor3D_shape 1 1 2 [[[8, 8 :: int]]]"
    and sr: "Matrix_shape 1 2 [[1, -3 :: real]]" "Matrix_shape 1 2 [[8, 8 :: real]]"
      "Tensor3D_shape 1 1 1 [[[5 :: real]]]" "Tensor3D_shape 1 1 1 [[[8 :: real]]]"
    by (simp_all add: Matrix_shape_def Tensor3D_shape_def)
  have q: "int_quotient (-7) 2 = -3" "int_quotient 7 2 = 3"
    "int_quotient 9 (-4) = -2" "int_quotient (-9) (-4) = 2"
    by (simp_all add: int_quotient_def)
  note half = divide_by_scalar_checked_once [OF si, where is_floating_point = False and epsilon = 0
      and divide_T = int_quotient and s = 2]
  note quarter = divide_by_scalar_checked_once [OF si, where is_floating_point = False and epsilon = 0
      and divide_T = int_quotient and s = "-4"]
  note zero_int = divide_by_scalar_checked_once [OF si, where is_floating_point = False and epsilon = 0
      and divide_T = int_quotient and s = 0]
  note ok_real = divide_by_scalar_checked_once [OF sr, where is_floating_point = True
      and epsilon = "1 / 2 ^ 52" and divide_T = "(/)" and s = 2]
  note tiny_real = divide_by_scalar_checked_once [OF sr, where is_floating_point = True
      and epsilon = "1 / 2 ^ 52" and divide_T = "(/)" and s = "- (1 / 2 ^ 53)"]
  have "\<exists>q. returned (Matrix_operator_divide False 0 int_quotient 1 2 [[-7, 7 :: int]] 2 [[8, 8]]) = Inr q
          \<and> Matrix_at 1 2 q 0 0 = Inr (-3) \<and> Matrix_at 1 2 q 0 1 = Inr 3"
    using half q by auto
  moreover have "\<exists>q. returned (Tensor3D_operator_divide False 0 int_quotient 1 1 2 [[[9, -9 :: int]]] (-4) [[[8, 8]]])
            = Inr q
          \<and> Tensor3D_at 1 1 2 q 0 0 0 = Inr (-2) \<and> Tensor3D_at 1 1 2 q 0 0 1 = Inr 2"
    using quarter q by auto
  moreover have "\<exists>e. returned (Matrix_operator_divide False 0 int_quotient 1 2 [[-7, 7 :: int]] 0 [[8, 8]]) = Inl e
          \<and> DivisionByZero e"
    and "\<exists>e. returned (Tensor3D_operator_divide False 0 int_quotient 1 1 2 [[[9, -9 :: int]]] 0 [[[8, 8]]])
            = Inl e
          \<and> DivisionByZero e"
    using zero_int by simp_all
  moreover have "\<exists>q. returned (Matrix_operator_divide True (1 / 2 ^ 52) (/) 1 2 [[1, -3 :: real]] 2 [[8, 8]]) = Inr q
          \<and> Matrix_at 1 2 q 0 0 = Inr (1 / 2) \<and> Matrix_at 1 2 q 0 1 = Inr (- (3 / 2))"
    using ok_real by auto
  moreover have "\<exists>e. returned (Tensor3D_operator_divide True (1 / 2 ^ 52) (/) 1 1 1 [[[5 :: real]]]
               (- (1 / 2 ^ 53)) [[[8]]]) = Inl e
          \<and> DivisionByZero e"
    using tiny_real by simp
  ultimately show ?thesis using si sr by simp
qed

text \<open>
  C3. The element accessor of a Matrix fails with an OutOfRange condition whenever
  \<open>row \<ge> Rows\<close> or \<open>col \<ge> Cols\<close>, in particular at \<open>(Rows, 0)\<close> and \<open>(0, Cols)\<close>,
  and so does the accessor of a Tensor3D whenever one of its three indices reaches its
  bound; the check is part of every read and of every write through the accessor, and
  an access within the bounds gives the stored value: the cell of \<open>data\<close>, which is
  the value last assigned through the accessor.
\<close>

theorem accessor_bounds_checked:
  "(row \<ge> Rows \<or> col \<ge> Cols \<longrightarrow>
      (\<exists>e. Matrix_at Rows Cols m row col = Inl e \<and> OutOfRange e) \<and>
      (\<exists>e. Matrix_at_assign Rows Cols m row col v = Inl e \<and> OutOfRange e))
   \<and> (\<exists>e. Matrix_at Rows Cols m Rows 0 = Inl e \<and> OutOfRange e)
   \<and> (\<exists>e. Matrix_at Rows Cols m 0 Cols = Inl e \<and> OutOfRange e)
   \<and> (row < Rows \<and> col < Cols \<longrightarrow> Matrix_at Rows Cols m row col = Inr (m ! row ! col))
   \<and> (Matrix_shape Rows Cols m \<and> row < Rows \<and> col < Cols \<longrightarrow>
        (\<exists>m'. Matrix_at_assign Rows Cols m row col v = Inr m' \<and> Matrix_shape Rows Cols m'
           \<and> Matrix_at Rows Cols m' row col = Inr v))
   \<and> (d \<ge> D \<or> r \<ge> R \<or> c \<ge> C \<longrightarrow>
      (\<exists>e. Tensor3D_at D R C t d r c = Inl e \<and> OutOfRange e) \<and>
      (\<exists>e. Tensor3D_at_assign D R C t d r c w = Inl e \<and> OutOfRange e))
   \<and> (d < D \<and> r < R \<and> c < C \<longrightarrow> Tensor3D_at D R C t d r c = Inr (t ! d ! r ! c))
   \<and> (Tensor3D_shape D R C t \<and> d < D \<and> r < R \<and> c < C \<longrightarrow>
        (\<exists>t'. Tensor3D_at_assign D R C t d r c w = Inr t' \<and> Tensor3D_shape D R C t'
           \<and> Tensor3D_at D R C t' d r c = Inr w))"
proof -
  have m_upd: "Matrix_shape Rows Cols (m[row := (m ! row)[col := v]])"
    and m_get: "m[row := (m ! row)[col := v]] ! row ! col = v"
    if "Matrix_shape Rows Cols m" "row < Rows" "col < Cols"
    using that by (auto simp: Matrix_shape_def list_all_length nth_list_update)
  have t_upd: "Tensor3D_shape D R C (t[d := (t ! d)[r := (t ! d ! r)[c := w]]])"
    and t_get: "t[d := (t ! d)[r := (t ! d ! r)[c := w]]] ! d ! r ! c = w"
    if "Tensor3D_shape D R C t" "d < D" "r < R" "c < C"
    using that by (auto simp: Tensor3D_shape_def Matrix_shape_def list_all_length nth_list_update)
  show ?thesis
    using m_upd m_get t_upd t_get
    by (simp add: Matrix_at_def Matrix_at_assign_def Tensor3D_at_def Tensor3D_at_assign_def)
qed

theorem accessor_bounds_checked_witness:
  "(\<exists>e. Matrix_at 2 2 [[1, 2], [3, 4 :: int]] 2 0 = Inl e \<and> OutOfRange e)
   \<and> (\<exists>e. Matrix_at 2 2 [[1, 2], [3, 4 :: int]] 0 2 = Inl e \<and> OutOfRange e)
   \<and> Matrix_shape 2 2 [[1, 2], [3, 4 :: int]]
   \<and> Matrix_at 2 2 [[1, 2], [3, 4 :: int]] 1 0 = Inr 3
   \<and> (\<exists>m'. Matrix_at_assign 2 2 [[1, 2], [3, 4 :: int]] 1 0 9 = Inr m' \<and> Matrix_at 2 2 m' 1 0 = Inr 9)
   \<and> (\<exists>e. Tensor3D_at 1 1 1 [[[5 :: int]]] 0 1 0 = Inl e \<and> OutOfRange e)
   \<and> Tensor3D_shape 1 1 1 [[[5 :: int]]]
   \<and> Tensor3D_at 1 1 1 [[[5 :: int]]] 0 0 0 = Inr 5
   \<and> (\<exists>t'. Tensor3D_at_assign 1 1 1 [[[5 :: int]]] 0 0 0 7 = Inr t' \<and> Tensor3D_at 1 1 1 t' 0 0 0 = Inr 7)"
proof -
  let ?m = "[[1, 2], [3, 4 :: int]]" and ?t = "[[[5 :: int]]]"
  have sm: "Matrix_shape 2 2 ?m" and st: "Tensor3D_shape 1 1 1 ?t"
    by (simp_all add: Matrix_shape_def Tensor3D_shape_def)
  note out = accessor_bounds_checked [where Rows = 2 and Cols = 2 and m = ?m and row = 2 and col = 0
      and D = 1 and R = 1 and C = 1 and t = ?t and d = 0 and r = 1 and c = 0]
  note ok = accessor_bounds_checked [where Rows = 2 and Cols = 2 and m = ?m and row = 1 and col = 0
      and v = 9 and D = 1 and R = 1 and C = 1 and t = ?t and d = 0 and r = 0 and c = 0 and w = 7]
  have "\<exists>e. Matrix_at 2 2 ?m 2 0 = Inl e \<and> OutOfRange e"
    and "\<exists>e. Matrix_at 2 2 ?m 0 2 = Inl e \<and> OutOfRange e"
    and "\<exists>e. Tensor3D_at 1 1 1 ?t 0 1 0 = Inl e \<and> OutOfRange e"
    using out by simp_all
  moreover have "Matrix_at 2 2 ?m 1 0 = Inr 3"
    and "\<exists>m'. Matrix_at_assign 2 2 ?m 1 0 9 = Inr m' \<and> Matrix_at 2 2 m' 1 0 = Inr 9"
    and "Tensor3D_at 1 1 1 ?t 0 0 0 = Inr 5"
    and "\<exists>t'. Tensor3D_at_assign 1 1 1 ?t 0 0 0 7 = Inr t' \<and> Tensor3D_at 1 1 1 t' 0 0 0 = Inr 7"
    using ok sm st by auto
  ultimately show ?thesis using sm st by simp
qed

text \<open>
  C4. populate assigns its arguments slowest axis first. For a Matrix the order is
  row-major: cell \<open>(r, c)\<close> receives argument number \<open>r * Cols + c\<close>, so the rows read
  one after the other are the argument list (and
  \<^verbatim>\<open>Matrix<int,2,2>.populate(1,2,3,4)\<close> gives \<open>1, 2\<close> in row 0 and \<open>3, 4\<close> in row
  1). For a Tensor3D depth varies slowest, then row, then col: cell \<open>(d, r, c)\<close>
  receives argument number \<open>(d * Rows + r) * Cols + c\<close>, so the \<open>n\<close>-th argument is the
  \<open>n\<close>-th cell of the enumeration by depth, row and col.
\<close>

theorem populate_order:
  assumes "Matrix_shape Rows Cols data" and "length args = Rows * Cols"
    and "Tensor3D_shape Depth TRows TCols tdata" and "length targs = Depth * TRows * TCols"
  shows "(\<exists>m. Matrix_populate Rows Cols (\<lambda>x. x) args data = Returns m
            \<and> Matrix_shape Rows Cols m
            \<and> concat m = args
            \<and> (\<forall>r<Rows. \<forall>c<Cols. Matrix_at Rows Cols m r c = Inr (args ! (r * Cols + c))))
       \<and> (\<exists>t. Tensor3D_populate Depth TRows TCols (\<lambda>x. x) targs tdata = Returns t
            \<and> Tensor3D_shape Depth TRows TCols t
            \<and> concat (map concat t) = targs
            \<and> (\<forall>d<Depth. \<forall>r<TRows. \<forall>c<TCols.
                  Tensor3D_at Depth TRows TCols t d r c = Inr (targs ! ((d * TRows + r) * TCols + c))))"
proof -
  have "Matrix_populate Rows Cols (\<lambda>x. x) args data
        = Returns (Matrix_tabulate Rows Cols (\<lambda>r c. args ! (r * Cols + c)))"
    using Matrix_populate_eq [OF assms(1,2), of "\<lambda>x. x"] by simp
  moreover have "Tensor3D_populate Depth TRows TCols (\<lambda>x. x) targs tdata
        = Returns (Tensor3D_tabulate Depth TRows TCols (\<lambda>d r c. targs ! ((d * TRows + r) * TCols + c)))"
    using Tensor3D_populate_eq [OF assms(3,4), of "\<lambda>x. x"] by simp
  ultimately show ?thesis
    using assms(2,4)
    by (simp add: Matrix_tabulate_shape Matrix_at_tabulate concat_Matrix_tabulate
        Tensor3D_tabulate_shape Tensor3D_at_tabulate concat_Tensor3D_tabulate)
qed

theorem populate_order_witness:
  "Matrix_shape 2 2 [[0, 0], [0, 0 :: int]] \<and> length [1, 2, 3, 4 :: int] = 2 * 2
   \<and> Tensor3D_shape 2 1 2 [[[0, 0]], [[0, 0 :: int]]] \<and> length [5, 6, 7, 8 :: int] = 2 * 1 * 2
   \<and> (\<exists>m. Matrix_populate 2 2 (\<lambda>x. x) [1, 2, 3, 4 :: int] [[0, 0], [0, 0]] = Returns m
          \<and> Matrix_at 2 2 m 0 0 = Inr 1 \<and> Matrix_at 2 2 m 0 1 = Inr 2
          \<and> Matrix_at 2 2 m 1 0 = Inr 3 \<and> Matrix_at 2 2 m 1 1 = Inr 4)
   \<and> (\<exists>t. Tensor3D_populate 2 1 2 (\<lambda>x. x) [5, 6, 7, 8 :: int] [[[0, 0]], [[0, 0]]] = Returns t
          \<and> Tensor3D_at 2 1 2 t 0 0 0 = Inr 5 \<and> Tensor3D_at 2 1 2 t 0 0 1 = Inr 6
          \<and> Tensor3D_at 2 1 2 t 1 0 0 = Inr 7 \<and> Tensor3D_at 2 1 2 t 1 0 1 = Inr 8)"
proof -
  have h: "Matrix_shape 2 2 [[0, 0], [0, 0 :: int]]" "length [1, 2, 3, 4 :: int] = 2 * 2"
    "Tensor3D_shape 2 1 2 [[[0, 0]], [[0, 0 :: int]]]" "length [5, 6, 7, 8 :: int] = 2 * 1 * 2"
    by (simp_all add: Matrix_shape_def Tensor3D_shape_def)
  note inst = populate_order [OF h]
  from inst [THEN conjunct1]
  obtain m where m: "Matrix_populate 2 2 (\<lambda>x. x) [1, 2, 3, 4 :: int] [[0, 0], [0, 0]] = Returns m"
      "\<forall>r<2. \<forall>c<2. Matrix_at 2 2 m r c = Inr ([1, 2, 3, 4 :: int] ! (r * 2 + c))"
    by blast
  from inst [THEN conjunct2]
  obtain t where t: "Tensor3D_populate 2 1 2 (\<lambda>x. x) [5, 6, 7, 8 :: int] [[[0, 0]], [[0, 0]]] = Returns t"
      "\<forall>d<2. \<forall>r<1. \<forall>c<2. Tensor3D_at 2 1 2 t d r c = Inr ([5, 6, 7, 8 :: int] ! ((d * 1 + r) * 2 + c))"
    by blast
  from m(2) have "Matrix_at 2 2 m 0 0 = Inr 1" "Matrix_at 2 2 m 0 1 = Inr 2"
    "Matrix_at 2 2 m 1 0 = Inr 3" "Matrix_at 2 2 m 1 1 = Inr 4"
    by simp_all
  moreover from t(2) have "Tensor3D_at 2 1 2 t 0 0 0 = Inr 5" "Tensor3D_at 2 1 2 t 0 0 1 = Inr 6"
    "Tensor3D_at 2 1 2 t 1 0 0 = Inr 7" "Tensor3D_at 2 1 2 t 1 0 1 = Inr 8"
    by simp_all
  ultimately show ?thesis using h m(1) t(1) by simp
qed

text \<open>
  C5, as the spec states it: after formatting a Matrix or a Tensor3D the formatting
  state of the stream (flags, width, precision, locale) is exactly what it was before
  the call. It is not. A stream set to precision 10, as after
  \<^verbatim>\<open>os << std::setprecision(10)\<close>, comes back from printing a Matrix with precision
  6; a newly initialised stream, whose precision is 6, comes back from printing a
  Tensor3D with precision 2.
\<close>

theorem formatting_not_restored_counterexample:
  "formatting (final_state (Matrix_operator_shift render_literally ''C'' 1 1
       (std_setprecision 10 (std_ios_nullptr ''C'')) [[1 :: int]]))
     \<noteq> formatting (std_setprecision 10 (std_ios_nullptr ''C''))
   \<and> formatting (final_state (Tensor3D_operator_shift render_literally 1 1 1
       (std_ios_nullptr ''C'') [[[5 :: int]]]))
     \<noteq> formatting (std_ios_nullptr ''C'')
   \<and> precision (std_setprecision 10 (std_ios_nullptr ''C'')) = 10
   \<and> precision (final_state (Matrix_operator_shift render_literally ''C'' 1 1
       (std_setprecision 10 (std_ios_nullptr ''C'')) [[1 :: int]])) = 6
   \<and> precision (std_ios_nullptr ''C'') = 6
   \<and> precision (final_state (Tensor3D_operator_shift render_literally 1 1 1
       (std_ios_nullptr ''C'') [[[5 :: int]]])) = 2"
proof -
  obtain os' where "Matrix_operator_shift render_literally ''C'' 1 1
       (std_setprecision 10 (std_ios_nullptr ''C'')) [[1 :: int]] = Returns os'"
    and "formatting os' = ({ios_skipws, ios_dec}, 0, 6, CHR '' '', ''C'')"
    using Matrix_operator_shift_formatting by blast
  moreover obtain os'' where "Tensor3D_operator_shift render_literally 1 1 1
       (std_ios_nullptr ''C'') [[[5 :: int]]] = Returns os''"
    and "formatting os'' = (flags (std_ios_nullptr ''C''), 0, 2,
          fill (std_ios_nullptr ''C''), getloc (std_ios_nullptr ''C''))"
    using Tensor3D_operator_shift_formatting by blast
  ultimately show ?thesis
    by (simp add: formatting_def std_setprecision_def std_ios_nullptr_def)
qed

text \<open>
  C5, amended. Printing a Matrix ends with \<^verbatim>\<open>os.copyfmt(std::ios(nullptr))\<close>: whatever
  the formatting state was before, afterwards it is that of a newly initialised stream
  (flags \<^verbatim>\<open>skipws | dec\<close>, width 0, precision 6, fill \<^verbatim>\<open>' '\<close>, the global locale),
  which is the state before the call only for a stream that had it. Printing a Tensor3D
  leaves the flags, the fill character and the locale what they were before the call,
  and the width 0.
\<close>

theorem formatting_after_printing:
  "(\<exists>os'. Matrix_operator_shift render global_locale Rows Cols os matrix = Returns os'
        \<and> formatting os' = formatting (std_ios_nullptr global_locale))
   \<and> (\<exists>os'. Tensor3D_operator_shift render Depth TRows TCols os tensor = Returns os'
        \<and> flags os' = flags os \<and> width os' = 0 \<and> fill os' = fill os \<and> getloc os' = getloc os)"
proof -
  obtain os1 where "Matrix_operator_shift render global_locale Rows Cols os matrix = Returns os1"
    and "formatting os1 = ({ios_skipws, ios_dec}, 0, 6, CHR '' '', global_locale)"
    using Matrix_operator_shift_formatting by blast
  moreover obtain os2 where "Tensor3D_operator_shift render Depth TRows TCols os tensor = Returns os2"
    and "formatting os2 = (flags os, 0, 2, fill os, getloc os)"
    using Tensor3D_operator_shift_formatting by blast
  ultimately show ?thesis
    by (simp add: formatting_def std_ios_nullptr_def)
qed

theorem formatting_after_printing_witness:
  "(\<exists>os'. Matrix_operator_shift render_literally ''C'' 1 1
        (std_setprecision 10 (std_ios_nullptr ''C'')) [[1 :: int]] = Returns os'
        \<and> formatting os' = ({ios_skipws, ios_dec}, 0, 6, CHR '' '', ''C''))
   \<and> (\<exists>os'. Tensor3D_operator_shift render_literally 1 1 1
        (std_setw 5 (std_ios_nullptr ''C'')) [[[5 :: int]]] = Returns os'
        \<and> flags os' = {ios_skipws, ios_dec} \<and> width os' = 0 \<and> fill os' = CHR '' ''
        \<and> getloc os' = ''C'')"
  using formatting_after_printing [where render = render_literally and global_locale = "''C''"
      and Rows = 1 and Cols = 1 and os = "std_setprecision 10 (std_ios_nullptr ''C'')"
      and matrix = "[[1 :: int]]", THEN conjunct1]
    formatting_after_printing [where render = render_literally and Depth = 1 and TRows = 1
      and TCols = 1 and os = "std_setw 5 (std_ios_nullptr ''C'')"
      and tensor = "[[[5 :: int]]]", THEN conjunct2]
  by (simp add: formatting_def std_ios_nullptr_def std_setw_def)

text \<open>
  C6. For every Tensor3D \<open>t\<close> and scalar \<open>k\<close>, the commuted form \<open>k * t\<close> returns what
  the member form \<open>t * k\<close> returns: the tensor of the same shape whose cell
  \<open>(d, r, c)\<close> is \<open>t(d, r, c) * k\<close>.
\<close>

theorem scalar_times_Tensor3D_commuted:
  assumes "Tensor3D_shape Depth Rows Cols t" and "Tensor3D_shape Depth Rows Cols raw"
    and "Tensor3D_shape Depth Rows Cols raw'"
  shows "\<exists>p. operator_times_scalar_Tensor3D Depth Rows Cols k t raw = Inr p
             \<and> returned (Tensor3D_operator_times Depth Rows Cols t k raw') = Inr p
             \<and> Tensor3D_shape Depth Rows Cols p
             \<and> (\<forall>d<Depth. \<forall>r<Rows. \<forall>c<Cols.
                   Tensor3D_at Depth Rows Cols p d r c = Inr (t ! d ! r ! c * k))"
  by (simp add: operator_times_scalar_Tensor3D_def Tensor3D_operator_times_eq [OF assms(2)]
      Tensor3D_operator_times_eq [OF assms(3)] Tensor3D_tabulate_shape Tensor3D_at_tabulate)

theorem scalar_times_Tensor3D_commuted_witness:
  "Tensor3D_shape 1 1 2 [[[5, 7 :: int]]] \<and> Tensor3D_shape 1 1 2 [[[8, 8 :: int]]]
   \<and> Tensor3D_shape 1 1 2 [[[9, 9 :: int]]]
   \<and> (\<exists>p. operator_times_scalar_Tensor3D 1 1 2 5 [[[5, 7 :: int]]] [[[8, 8]]] = Inr p
          \<and> returned (Tensor3D_operator_times 1 1 2 [[[5, 7]]] 5 [[[9, 9]]]) = Inr p
          \<and> Tensor3D_at 1 1 2 p 0 0 0 = Inr 25 \<and> Tensor3D_at 1 1 2 p 0 0 1 = Inr 35)"
proof -
  have h: "Tensor3D_shape 1 1 2 [[[5, 7 :: int]]]" "Tensor3D_shape 1 1 2 [[[8, 8 :: int]]]"
    "Tensor3D_shape 1 1 2 [[[9, 9 :: int]]]"
    by (simp_all add: Tensor3D_shape_def Matrix_shape_def)
  from scalar_times_Tensor3D_commuted [OF h, of 5]
  obtain p where p: "operator_times_scalar_Tensor3D 1 1 2 5 [[[5, 7 :: int]]] [[[8, 8]]] = Inr p"
      "returned (Tensor3D_operator_times 1 1 2 [[[5, 7 :: int]]] 5 [[[9, 9]]]) = Inr p"
      "\<forall>d<1. \<forall>r<1. \<forall>c<2. Tensor3D_at 1 1 2 p d r c = Inr ([[[5, 7 :: int]]] ! d ! r ! c * 5)"
    by blast
  from p(3) have "Tensor3D_at 1 1 2 p 0 0 0 = Inr 25" "Tensor3D_at 1 1 2 p 0 0 1 = Inr 35"
    by simp_all
  then show ?thesis using h p(1,2) by simp
qed

text \<open>
  C7. No operator of Matrix or Tensor3D changes an operand: whether the call returns
  or throws, the receiver and the argument are afterwards what they were before, and
  the result is a new value in the frame of the call. A division that fails with
  DivisionByZero throws from the check, before the result is constructed, so nothing
  has been written at all.
\<close>

theorem operators_leave_operands_unchanged:
  fixes A B :: "('a::{zero,plus,minus,times,abs,ord}) Matrix"
    and T U :: "'a Tensor3D" and s :: 'a
  assumes "Matrix_shape Rows OtherCols praw" and "Matrix_shape Rows Cols raw"
    and "Tensor3D_shape Depth Rows Cols traw"
  shows "this (final_state (Matrix_operator_times Rows Cols OtherRows OtherCols A B praw)) = A
       \<and> arg (final_state (Matrix_operator_times Rows Cols OtherRows OtherCols A B praw)) = B
       \<and> this (final_state (Matrix_operator_plus Rows Cols A B raw)) = A
       \<and> arg (final_state (Matrix_operator_plus Rows Cols A B raw)) = B
       \<and> this (final_state (Matrix_operator_minus Rows Cols A B raw)) = A
       \<and> arg (final_state (Matrix_operator_minus Rows Cols A B raw)) = B
       \<and> this (final_state (Matrix_operator_divide is_floating_point epsilon divide_T Rows Cols A s raw)) = A
       \<and> arg (final_state (Matrix_operator_divide is_floating_point epsilon divide_T Rows Cols A s raw)) = s
       \<and> this (final_state (Tensor3D_operator_plus Depth Rows Cols T U traw)) = T
       \<and> arg (final_state (Tensor3D_operator_plus Depth Rows Cols T U traw)) = U
       \<and> this (final_state (Tensor3D_operator_minus Depth Rows Cols T U traw)) = T
       \<and> arg (final_state (Tensor3D_operator_minus Depth Rows Cols T U traw)) = U
       \<and> this (final_state (Tensor3D_operator_times Depth Rows Cols T s traw)) = T
       \<and> arg (final_state (Tensor3D_operator_times Depth Rows Cols T s traw)) = s
       \<and> this (final_state (Tensor3D_operator_divide is_floating_point epsilon divide_T Depth Rows Cols T s traw)) = T
       \<and> arg (final_state (Tensor3D_operator_divide is_floating_point epsilon divide_T Depth Rows Cols T s traw)) = s
       \<and> ((if is_floating_point then \<bar>s\<bar> < epsilon else s = 0) \<longrightarrow>
            (\<exists>e. DivisionByZero e
               \<and> Matrix_operator_divide is_floating_point epsilon divide_T Rows Cols A s raw
                 = Throws e \<lparr>this = A, arg = s, result = raw\<rparr>)
          \<and> (\<exists>e. DivisionByZero e
               \<and> Tensor3D_operator_divide is_floating_point epsilon divide_T Depth Rows Cols T s traw
                 = Throws e \<lparr>this = T, arg = s, result = traw\<rparr>))"
proof -
  have times: "this (final_state (Matrix_operator_times Rows Cols OtherRows OtherCols A B praw)) = A
       \<and> arg (final_state (Matrix_operator_times Rows Cols OtherRows OtherCols A B praw)) = B"
  proof (cases "Cols = OtherRows")
    case True
    then show ?thesis by (simp add: Matrix_operator_times_eq [OF assms(1)])
  next
    case False
    then show ?thesis by (simp add: Matrix_operator_times_def)
  qed
  have div_m: "this (final_state (Matrix_operator_divide is_floating_point epsilon divide_T Rows Cols A s raw)) = A
       \<and> arg (final_state (Matrix_operator_divide is_floating_point epsilon divide_T Rows Cols A s raw)) = s"
  proof (cases "if is_floating_point then \<bar>s\<bar> < epsilon else s = 0")
    case True
    show ?thesis by (simp add: Matrix_operator_divide_fails [OF True])
  next
    case False
    show ?thesis by (simp add: Matrix_operator_divide_ok [OF False assms(2)])
  qed
  have div_t: "this (final_state (Tensor3D_operator_divide is_floating_point epsilon divide_T Depth Rows Cols T s traw)) = T
       \<and> arg (final_state (Tensor3D_operator_divide is_floating_point epsilon divide_T Depth Rows Cols T s traw)) = s"
  proof (cases "if is_floating_point then \<bar>s\<bar> < epsilon else s = 0")
    case True
    show ?thesis by (simp add: Tensor3D_operator_divide_fails [OF True])
  next
    case False
    show ?thesis by (simp add: Tensor3D_operator_divide_ok [OF False assms(3)])
  qed
  have fails: "(if is_floating_point then \<bar>s\<bar> < epsilon else s = 0) \<longrightarrow>
            (\<exists>e. DivisionByZero e
               \<and> Matrix_operator_divide is_floating_point epsilon divide_T Rows Cols A s raw
                 = Throws e \<lparr>this = A, arg = s, result = raw\<rparr>)
          \<and> (\<exists>e. DivisionByZero e
               \<and> Tensor3D_operator_divide is_floating_point epsilon divide_T Depth Rows Cols T s traw
                 = Throws e \<lparr>this = T, arg = s, result = traw\<rparr>)"
  proof
    assume z: "if is_floating_point then \<bar>s\<bar> < epsilon else s = 0"
    show "(\<exists>e. DivisionByZero e
               \<and> Matrix_operator_divide is_floating_point epsilon divide_T Rows Cols A s raw
                 = Throws e \<lparr>this = A, arg = s, result = raw\<rparr>)
          \<and> (\<exists>e. DivisionByZero e
               \<and> Tensor3D_operator_divide is_floating_point epsilon divide_T Depth Rows Cols T s traw
                 = Throws e \<lparr>this = T, arg = s, result = traw\<rparr>)"
      by (simp only: Matrix_operator_divide_fails [OF z] Tensor3D_operator_divide_fails [OF z])
         simp
  qed
  show ?thesis
    using times div_m div_t fails
    by (simp add: Matrix_operator_plus_eq [OF assms(2)] Matrix_operator_minus_eq [OF assms(2)]
        Tensor3D_operator_plus_eq [OF assms(3)] Tensor3D_operator_minus_eq [OF assms(3)]
        Tensor3D_operator_times_eq [OF assms(3)])
qed

theorem operators_leave_operands_unchanged_witness:
  "Matrix_shape 1 1 [[7 :: int]] \<and> Matrix_shape 1 2 [[7, 7 :: int]] \<and> Tensor3D_shape 1 1 2 [[[7, 7 :: int]]]
   \<and> this (final_state (Matrix_operator_times 1 2 2 1 [[1, 2]] [[3], [4 :: int]] [[7]])) = [[1, 2]]
   \<and> arg (final_state (Matrix_operator_times 1 2 2 1 [[1, 2]] [[3], [4 :: int]] [[7]])) = [[3], [4]]
   \<and> this (final_state (Matrix_operator_plus 1 2 [[1, 2]] [[3, 4 :: int]] [[7, 7]])) = [[1, 2]]
   \<and> arg (final_state (Matrix_operator_plus 1 2 [[1, 2]] [[3, 4 :: int]] [[7, 7]])) = [[3, 4]]
   \<and> this (final_state (Matrix_operator_divide False 0 int_quotient 1 2 [[1, 2 :: int]] 2 [[7, 7]])) = [[1, 2]]
   \<and> this (final_state (Tensor3D_operator_times 1 1 2 [[[5, 6 :: int]]] 5 [[[7, 7]]])) = [[[5, 6]]]
   \<and> (\<exists>e. DivisionByZero e
          \<and> Matrix_operator_divide False 0 int_quotient 1 2 [[1, 2 :: int]] 0 [[7, 7]]
            = Throws e \<lparr>this = [[1, 2]], arg = 0, result = [[7, 7]]\<rparr>)
   \<and> (\<exists>e. DivisionByZero e
          \<and> Tensor3D_operator_divide False 0 int_quotient 1 1 2 [[[5, 6 :: int]]] 0 [[[7, 7]]]
            = Throws e \<lparr>this = [[[5, 6]]], arg = 0, result = [[[7, 7]]]\<rparr>)"
proof -
  have h: "Matrix_shape 1 1 [[7 :: int]]" "Matrix_shape 1 2 [[7, 7 :: int]]"
    "Tensor3D_shape 1 1 2 [[[7, 7 :: int]]]"
    by (simp_all add: Matrix_shape_def Tensor3D_shape_def)
  note prod = operators_leave_operands_unchanged [OF h, where OtherRows = 2
      and A = "[[1, 2 :: int]]" and B = "[[3], [4 :: int]]"]
  note sums = operators_leave_operands_unchanged [OF h, where OtherRows = 2
      and A = "[[1, 2 :: int]]" and B = "[[3, 4 :: int]]" and is_floating_point = False
      and epsilon = 0 and divide_T = int_quotient and s = 2]
  note scaled = operators_leave_operands_unchanged [OF h, where T = "[[[5, 6 :: int]]]" and s = 5]
  note zero = operators_leave_operands_unchanged [OF h, where A = "[[1, 2 :: int]]"
      and T = "[[[5, 6 :: int]]]" and is_floating_point = False and epsilon = 0 and divide_T = int_quotient and s = 0]
  have "this (final_state (Matrix_operator_times 1 2 2 1 [[1, 2]] [[3], [4 :: int]] [[7]])) = [[1, 2]]"
    and "arg (final_state (Matrix_operator_times 1 2 2 1 [[1, 2]] [[3], [4 :: int]] [[7]])) = [[3], [4]]"
    using prod by simp_all
  moreover have "this (final_state (Matrix_operator_plus 1 2 [[1, 2]] [[3, 4 :: int]] [[7, 7]])) = [[1, 2]]"
    and "arg (final_state (Matrix_operator_plus 1 2 [[1, 2]] [[3, 4 :: int]] [[7, 7]])) = [[3, 4]]"
    and "this (final_state (Matrix_operator_divide False 0 int_quotient 1 2 [[1, 2 :: int]] 2 [[7, 7]])) = [[1, 2]]"
    using sums by simp_all
  moreover have "this (final_state (Tensor3D_operator_times 1 1 2 [[[5, 6 :: int]]] 5 [[[7, 7]]])) = [[[5, 6]]]"
    using scaled by simp
  moreover have "\<exists>e. DivisionByZero e
          \<and> Matrix_operator_divide False 0 int_quotient 1 2 [[1, 2 :: int]] 0 [[7, 7]]
            = Throws e \<lparr>this = [[1, 2]], arg = 0, result = [[7, 7]]\<rparr>"
    and "\<exists>e. DivisionByZero e
          \<and> Tensor3D_operator_divide False 0 int_quotient 1 1 2 [[[5, 6 :: int]]] 0 [[[7, 7]]]
            = Throws e \<lparr>this = [[[5, 6]]], arg = 0, result = [[[7, 7]]]\<rparr>"
    using zero by simp_all
  ultimately show ?thesis using h by simp
qed

text \<open>
  C8, as the spec states it: a default-constructed container holds the zero of \<open>T\<close> in
  every cell, and adding it to any container \<open>m\<close> of the same shape returns a result
  equal to \<open>m\<close> cell for cell. The second half fails for a floating-point \<open>T\<close>: the
  matrix with the cells \<open>-0.0\<close> and NaN plus the default-constructed matrix is the
  matrix with the cells \<open>+0.0\<close> and NaN, which is another value than \<open>m\<close> in its
  first cell and does not compare equal to \<open>m\<close> in its second.
\<close>

theorem additive_identity_counterexample:
  "Matrix_ctor 1 2 [[NaN, NaN]] = Returns [[PosZero, PosZero]]
   \<and> returned (Matrix_operator_plus 1 2 [[NegZero, NaN]] [[PosZero, PosZero]] [[NaN, NaN]])
       = Inr [[PosZero, NaN]]
   \<and> returned (Matrix_operator_plus 1 2 [[NegZero, NaN]] [[PosZero, PosZero]] [[NaN, NaN]])
       \<noteq> Inr [[NegZero, NaN]]
   \<and> \<not> list_all2 (list_all2 ieee_equal) [[PosZero, NaN]] [[NegZero, NaN]]"
proof -
  have shape: "Matrix_shape 1 2 [[NaN, NaN]]"
    by (simp add: Matrix_shape_def)
  have up: "[0..<2] = [0, 1]"
    by (simp add: upt_conv_Cons)
  have zeros: "Matrix_tabulate 1 2 (\<lambda>r c. 0) = [[PosZero, PosZero]]"
    by (simp add: Matrix_tabulate_def up zero_ieee_special_def)
  have sums: "Matrix_tabulate 1 2 (\<lambda>r c. [[NegZero, NaN]] ! r ! c + 0) = [[PosZero, NaN]]"
    by (simp add: Matrix_tabulate_def up zero_ieee_special_def plus_ieee_special_def)
  have "Matrix_ctor 1 2 [[NaN, NaN]] = Returns [[PosZero, PosZero]]"
    using Matrix_ctor_eq [OF shape] zeros by simp
  moreover have "returned (Matrix_operator_plus 1 2 [[NegZero, NaN]] [[PosZero, PosZero]] [[NaN, NaN]])
       = Inr [[PosZero, NaN]]"
    using Matrix_plus_zeros [OF shape, of "[[NegZero, NaN]]"] zeros sums by simp
  ultimately show ?thesis
    by (simp add: ieee_equal_def)
qed

text \<open>
  C8, amended. A default-constructed Matrix or Tensor3D holds the zero of \<open>T\<close> in every
  cell, whatever its storage held before, and adding a default-constructed container of
  the same shape to a container \<open>m\<close> returns the container whose every cell is the
  cell of \<open>m\<close> plus \<^verbatim>\<open>T{}\<close>, in the arithmetic of \<open>T\<close>. That is \<open>m\<close> itself whenever
  \<open>x + T{} = x\<close> for the cells \<open>x\<close> of \<open>m\<close>, as for every container of an integer
  \<open>T\<close>.
\<close>

theorem default_constructed_adds_zero:
  fixes m :: "('a::{zero,plus}) Matrix" and t :: "'a Tensor3D"
  assumes "Matrix_shape Rows Cols m" and "Matrix_shape Rows Cols zraw"
    and "Matrix_shape Rows Cols raw"
    and "Tensor3D_shape Depth TRows TCols t" and "Tensor3D_shape Depth TRows TCols tzraw"
    and "Tensor3D_shape Depth TRows TCols traw"
  shows "(\<exists>z. Matrix_ctor Rows Cols zraw = Returns z
            \<and> Matrix_shape Rows Cols z
            \<and> (\<forall>r<Rows. \<forall>c<Cols. Matrix_at Rows Cols z r c = Inr (0 :: 'a))
            \<and> (\<exists>p. returned (Matrix_operator_plus Rows Cols m z raw) = Inr p
                  \<and> Matrix_shape Rows Cols p
                  \<and> (\<forall>r<Rows. \<forall>c<Cols. Matrix_at Rows Cols p r c = Inr (m ! r ! c + 0))
                  \<and> ((\<forall>r<Rows. \<forall>c<Cols. m ! r ! c + 0 = m ! r ! c) \<longrightarrow> p = m)))
       \<and> (\<exists>z. Tensor3D_ctor Depth TRows TCols tzraw = Returns z
            \<and> Tensor3D_shape Depth TRows TCols z
            \<and> (\<forall>d<Depth. \<forall>r<TRows. \<forall>c<TCols. Tensor3D_at Depth TRows TCols z d r c = Inr (0 :: 'a))
            \<and> (\<exists>p. returned (Tensor3D_operator_plus Depth TRows TCols t z traw) = Inr p
                  \<and> Tensor3D_shape Depth TRows TCols p
                  \<and> (\<forall>d<Depth. \<forall>r<TRows. \<forall>c<TCols.
                        Tensor3D_at Depth TRows TCols p d r c = Inr (t ! d ! r ! c + 0))
                  \<and> ((\<forall>d<Depth. \<forall>r<TRows. \<forall>c<TCols. t ! d ! r ! c + 0 = t ! d ! r ! c)
                        \<longrightarrow> p = t)))"
proof -
  have m_same: "Matrix_tabulate Rows Cols (\<lambda>r c. m ! r ! c + 0) = m"
    if "\<forall>r<Rows. \<forall>c<Cols. m ! r ! c + 0 = m ! r ! c"
  proof -
    have "Matrix_tabulate Rows Cols (\<lambda>r c. m ! r ! c + 0) = Matrix_tabulate Rows Cols (\<lambda>r c. m ! r ! c)"
      by (rule Matrix_tabulate_cong) (simp add: that)
    then show ?thesis by (simp add: Matrix_tabulate_cells [OF assms(1)])
  qed
  have t_same: "Tensor3D_tabulate Depth TRows TCols (\<lambda>d r c. t ! d ! r ! c + 0) = t"
    if "\<forall>d<Depth. \<forall>r<TRows. \<forall>c<TCols. t ! d ! r ! c + 0 = t ! d ! r ! c"
  proof -
    have "Tensor3D_tabulate Depth TRows TCols (\<lambda>d r c. t ! d ! r ! c + 0)
          = Tensor3D_tabulate Depth TRows TCols (\<lambda>d r c. t ! d ! r ! c)"
      by (rule Tensor3D_tabulate_cong) (simp add: that)
    then show ?thesis by (simp add: Tensor3D_tabulate_cells [OF assms(4)])
  qed
  have matrix: "\<exists>z. Matrix_ctor Rows Cols zraw = Returns z
            \<and> Matrix_shape Rows Cols z
            \<and> (\<forall>r<Rows. \<forall>c<Cols. Matrix_at Rows Cols z r c = Inr (0 :: 'a))
            \<and> (\<exists>p. returned (Matrix_operator_plus Rows Cols m z raw) = Inr p
                  \<and> Matrix_shape Rows Cols p
                  \<and> (\<forall>r<Rows. \<forall>c<Cols. Matrix_at Rows Cols p r c = Inr (m ! r ! c + 0))
                  \<and> ((\<forall>r<Rows. \<forall>c<Cols. m ! r ! c + 0 = m ! r ! c) \<longrightarrow> p = m))"
    using m_same
    by (simp add: Matrix_ctor_eq [OF assms(2)] Matrix_plus_zeros [OF assms(3)]
        Matrix_tabulate_shape Matrix_at_tabulate)
  have tensor: "\<exists>z. Tensor3D_ctor Depth TRows TCols tzraw = Returns z
            \<and> Tensor3D_shape Depth TRows TCols z
            \<and> (\<forall>d<Depth. \<forall>r<TRows. \<forall>c<TCols. Tensor3D_at Depth TRows TCols z d r c = Inr (0 :: 'a))
            \<and> (\<exists>p. returned (Tensor3D_operator_plus Depth TRows TCols t z traw) = Inr p
                  \<and> Tensor3D_shape Depth TRows TCols p
                  \<and> (\<forall>d<Depth. \<forall>r<TRows. \<forall>c<TCols.
                        Tensor3D_at Depth TRows TCols p d r c = Inr (t ! d ! r ! c + 0))
                  \<and> ((\<forall>d<Depth. \<forall>r<TRows. \<forall>c<TCols. t ! d ! r ! c + 0 = t ! d ! r ! c)
                        \<longrightarrow> p = t))"
    using t_same
    by (simp add: Tensor3D_ctor_eq [OF assms(5)] Tensor3D_plus_zeros [OF assms(6)]
        Tensor3D_tabulate_shape Tensor3D_at_tabulate)
  from matrix tensor show ?thesis by (rule conjI)
qed

theorem default_constructed_adds_zero_witness:
  "Matrix_shape 2 2 [[1, -2], [3, 4 :: int]] \<and> Matrix_shape 2 2 [[7, 7], [7, 7 :: int]]
   \<and> Matrix_shape 2 2 [[8, 8], [8, 8 :: int]]
   \<and> Tensor3D_shape 1 1 2 [[[5, -6 :: int]]] \<and> Tensor3D_shape 1 1 2 [[[7, 7 :: int]]]
   \<and> Tensor3D_shape 1 1 2 [[[8, 8 :: int]]]
   \<and> (\<exists>z. Matrix_ctor 2 2 [[7, 7], [7, 7 :: int]] = Returns z
          \<and> Matrix_at 2 2 z 0 0 = Inr 0 \<and> Matrix_at 2 2 z 0 1 = Inr 0
          \<and> Matrix_at 2 2 z 1 0 = Inr 0 \<and> Matrix_at 2 2 z 1 1 = Inr 0
          \<and> returned (Matrix_operator_plus 2 2 [[1, -2], [3, 4 :: int]] z [[8, 8], [8, 8]])
              = Inr [[1, -2], [3, 4]])
   \<and> (\<exists>z. Tensor3D_ctor 1 1 2 [[[7, 7 :: int]]] = Returns z
          \<and> Tensor3D_at 1 1 2 z 0 0 0 = Inr 0 \<and> Tensor3D_at 1 1 2 z 0 0 1 = Inr 0
          \<and> returned (Tensor3D_operator_plus 1 1 2 [[[5, -6 :: int]]] z [[[8, 8]]]) = Inr [[[5, -6]]])"
proof -
  have h: "Matrix_shape 2 2 [[1, -2], [3, 4 :: int]]" "Matrix_shape 2 2 [[7, 7], [7, 7 :: int]]"
    "Matrix_shape 2 2 [[8, 8], [8, 8 :: int]]"
    "Tensor3D_shape 1 1 2 [[[5, -6 :: int]]]" "Tensor3D_shape 1 1 2 [[[7, 7 :: int]]]"
    "Tensor3D_shape 1 1 2 [[[8, 8 :: int]]]"
    by (simp_all add: Matrix_shape_def Tensor3D_shape_def)
  note inst = default_constructed_adds_zero [OF h]
  from inst [THEN conjunct1]
  obtain z where zb: "Matrix_ctor 2 2 [[7, 7], [7, 7 :: int]] = Returns z
      \<and> Matrix_shape 2 2 z
      \<and> (\<forall>r<2. \<forall>c<2. Matrix_at 2 2 z r c = Inr (0 :: int))
      \<and> (\<exists>p. returned (Matrix_operator_plus 2 2 [[1, -2], [3, 4 :: int]] z [[8, 8], [8, 8]]) = Inr p
            \<and> Matrix_shape 2 2 p
            \<and> (\<forall>r<2. \<forall>c<2. Matrix_at 2 2 p r c = Inr ([[1, -2], [3, 4 :: int]] ! r ! c + 0))
            \<and> ((\<forall>r<2. \<forall>c<2. [[1, -2], [3, 4 :: int]] ! r ! c + 0 = [[1, -2], [3, 4]] ! r ! c)
                  \<longrightarrow> p = [[1, -2], [3, 4]]))" ..
  from zb [THEN conjunct2, THEN conjunct2, THEN conjunct2]
  obtain p where pb: "returned (Matrix_operator_plus 2 2 [[1, -2], [3, 4 :: int]] z [[8, 8], [8, 8]]) = Inr p
      \<and> Matrix_shape 2 2 p
      \<and> (\<forall>r<2. \<forall>c<2. Matrix_at 2 2 p r c = Inr ([[1, -2], [3, 4 :: int]] ! r ! c + 0))
      \<and> ((\<forall>r<2. \<forall>c<2. [[1, -2], [3, 4 :: int]] ! r ! c + 0 = [[1, -2], [3, 4]] ! r ! c)
            \<longrightarrow> p = [[1, -2], [3, 4]])" ..
  from inst [THEN conjunct2]
  obtain y where yb: "Tensor3D_ctor 1 1 2 [[[7, 7 :: int]]] = Returns y
      \<and> Tensor3D_shape 1 1 2 y
      \<and> (\<forall>d<1. \<forall>r<1. \<forall>c<2. Tensor3D_at 1 1 2 y d r c = Inr (0 :: int))
      \<and> (\<exists>q. returned (Tensor3D_operator_plus 1 1 2 [[[5, -6 :: int]]] y [[[8, 8]]]) = Inr q
            \<and> Tensor3D_shape 1 1 2 q
            \<and> (\<forall>d<1. \<forall>r<1. \<forall>c<2. Tensor3D_at 1 1 2 q d r c = Inr ([[[5, -6 :: int]]] ! d ! r ! c + 0))
            \<and> ((\<forall>d<1. \<forall>r<1. \<forall>c<2. [[[5, -6 :: int]]] ! d ! r ! c + 0 = [[[5, -6]]] ! d ! r ! c)
                  \<longrightarrow> q = [[[5, -6]]]))" ..
  from yb [THEN conjunct2, THEN conjunct2, THEN conjunct2]
  obtain q where qb: "returned (Tensor3D_operator_plus 1 1 2 [[[5, -6 :: int]]] y [[[8, 8]]]) = Inr q
      \<and> Tensor3D_shape 1 1 2 q
      \<and> (\<forall>d<1. \<forall>r<1. \<forall>c<2. Tensor3D_at 1 1 2 q d r c = Inr ([[[5, -6 :: int]]] ! d ! r ! c + 0))
      \<and> ((\<forall>d<1. \<forall>r<1. \<forall>c<2. [[[5, -6 :: int]]] ! d ! r ! c + 0 = [[[5, -6]]] ! d ! r ! c)
            \<longrightarrow> q = [[[5, -6]]])" ..
  note z = zb [THEN conjunct1] zb [THEN conjunct2, THEN conjunct2, THEN conjunct1]
    pb [THEN conjunct1] pb [THEN conjunct2, THEN conjunct2, THEN conjunct2]
  note y = yb [THEN conjunct1] yb [THEN conjunct2, THEN conjunct2, THEN conjunct1]
    qb [THEN conjunct1] qb [THEN conjunct2, THEN conjunct2, THEN conjunct2]
  from z(4) have "p = [[1, -2], [3, 4]]" by simp
  moreover from y(4) have "q = [[[5, -6]]]" by simp
  moreover from z(2) have "Matrix_at 2 2 z 0 0 = Inr 0" "Matrix_at 2 2 z 0 1 = Inr 0"
    "Matrix_at 2 2 z 1 0 = Inr 0" "Matrix_at 2 2 z 1 1 = Inr 0"
    by simp_all
  moreover from y(2) have "Tensor3D_at 1 1 2 y 0 0 0 = Inr 0" "Tensor3D_at 1 1 2 y 0 0 1 = Inr 0"
    by simp_all
  ultimately show ?thesis using h z(1,3) y(1,3) by simp
qed

text \<open>
  C9. Inside the operators every element access runs under loop bounds that are the
  shape bounds of the container accessed, so no access takes the OutOfRange branch of
  the accessor: \<open>+\<close>, \<open>-\<close>, the scalar product and the matrix product of compatible
  shapes always return, and scalar division returns unless it throws DivisionByZero
  from its check. No call ends in an OutOfRange exception.
\<close>

theorem operators_never_out_of_range:
  fixes A B :: "('a::{zero,plus,minus,times,abs,ord}) Matrix"
    and T U :: "'a Tensor3D" and s :: 'a
  assumes "Matrix_shape Rows OtherCols praw" and "Matrix_shape Rows Cols raw"
    and "Tensor3D_shape Depth Rows Cols traw"
  shows "(Cols = OtherRows \<longrightarrow>
            (\<exists>st. Matrix_operator_times Rows Cols OtherRows OtherCols A B praw = Returns st))
       \<and> (\<exists>st. Matrix_operator_plus Rows Cols A B raw = Returns st)
       \<and> (\<exists>st. Matrix_operator_minus Rows Cols A B raw = Returns st)
       \<and> (\<not> (if is_floating_point then \<bar>s\<bar> < epsilon else s = 0) \<longrightarrow>
            (\<exists>st. Matrix_operator_divide is_floating_point epsilon divide_T Rows Cols A s raw = Returns st))
       \<and> (\<exists>st. Tensor3D_operator_plus Depth Rows Cols T U traw = Returns st)
       \<and> (\<exists>st. Tensor3D_operator_minus Depth Rows Cols T U traw = Returns st)
       \<and> (\<exists>st. Tensor3D_operator_times Depth Rows Cols T s traw = Returns st)
       \<and> (\<not> (if is_floating_point then \<bar>s\<bar> < epsilon else s = 0) \<longrightarrow>
            (\<exists>st. Tensor3D_operator_divide is_floating_point epsilon divide_T Depth Rows Cols T s traw = Returns st))
       \<and> (\<forall>e st. Matrix_operator_times Rows Cols OtherRows OtherCols A B praw = Throws e st
            \<longrightarrow> \<not> OutOfRange e)
       \<and> (\<forall>e st. Matrix_operator_plus Rows Cols A B raw = Throws e st \<longrightarrow> \<not> OutOfRange e)
       \<and> (\<forall>e st. Matrix_operator_minus Rows Cols A B raw = Throws e st \<longrightarrow> \<not> OutOfRange e)
       \<and> (\<forall>e st. Matrix_operator_divide is_floating_point epsilon divide_T Rows Cols A s raw = Throws e st
            \<longrightarrow> \<not> OutOfRange e)
       \<and> (\<forall>e st. Tensor3D_operator_plus Depth Rows Cols T U traw = Throws e st \<longrightarrow> \<not> OutOfRange e)
       \<and> (\<forall>e st. Tensor3D_operator_minus Depth Rows Cols T U traw = Throws e st \<longrightarrow> \<not> OutOfRange e)
       \<and> (\<forall>e st. Tensor3D_operator_times Depth Rows Cols T s traw = Throws e st \<longrightarrow> \<not> OutOfRange e)
       \<and> (\<forall>e st. Tensor3D_operator_divide is_floating_point epsilon divide_T Depth Rows Cols T s traw = Throws e st
            \<longrightarrow> \<not> OutOfRange e)"
proof -
  have times: "\<not> OutOfRange e"
    if "Matrix_operator_times Rows Cols OtherRows OtherCols A B praw = Throws e st" for e st
  proof (cases "Cols = OtherRows")
    case True
    with that show ?thesis by (simp add: Matrix_operator_times_eq [OF assms(1)])
  next
    case False
    with that show ?thesis by (auto simp: Matrix_operator_times_def)
  qed
  have div_m: "\<not> OutOfRange e"
    if "Matrix_operator_divide is_floating_point epsilon divide_T Rows Cols A s raw = Throws e st" for e st
  proof (cases "if is_floating_point then \<bar>s\<bar> < epsilon else s = 0")
    case True
    from that show ?thesis by (auto simp: Matrix_operator_divide_fails [OF True])
  next
    case False
    from that show ?thesis by (simp add: Matrix_operator_divide_ok [OF False assms(2)])
  qed
  have div_t: "\<not> OutOfRange e"
    if "Tensor3D_operator_divide is_floating_point epsilon divide_T Depth Rows Cols T s traw = Throws e st" for e st
  proof (cases "if is_floating_point then \<bar>s\<bar> < epsilon else s = 0")
    case True
    from that show ?thesis by (auto simp: Tensor3D_operator_divide_fails [OF True])
  next
    case False
    from that show ?thesis by (simp add: Tensor3D_operator_divide_ok [OF False assms(3)])
  qed
  have ok_m: "\<exists>st. Matrix_operator_divide is_floating_point epsilon divide_T Rows Cols A s raw = Returns st"
    and ok_t: "\<exists>st. Tensor3D_operator_divide is_floating_point epsilon divide_T Depth Rows Cols T s traw = Returns st"
    if "\<not> (if is_floating_point then \<bar>s\<bar> < epsilon else s = 0)"
    by (simp_all add: Matrix_operator_divide_ok [OF that assms(2)]
        Tensor3D_operator_divide_ok [OF that assms(3)])
  show ?thesis
    using times div_m div_t ok_m ok_t
    by (auto simp: Matrix_operator_times_eq [OF assms(1)] Matrix_operator_plus_eq [OF assms(2)]
        Matrix_operator_minus_eq [OF assms(2)] Tensor3D_operator_plus_eq [OF assms(3)]
        Tensor3D_operator_minus_eq [OF assms(3)] Tensor3D_operator_times_eq [OF assms(3)])
qed

theorem operators_never_out_of_range_witness:
  "Matrix_shape 1 1 [[7 :: int]] \<and> Matrix_shape 1 2 [[7, 7 :: int]] \<and> Tensor3D_shape 1 1 2 [[[7, 7 :: int]]]
   \<and> (\<exists>st. Matrix_operator_times 1 2 2 1 [[1, 2]] [[3], [4 :: int]] [[7]] = Returns st)
   \<and> (\<exists>st. Matrix_operator_plus 1 2 [[1, 2]] [[3, 4 :: int]] [[7, 7]] = Returns st)
   \<and> (\<exists>st. Matrix_operator_minus 1 2 [[1, 2]] [[3, 4 :: int]] [[7, 7]] = Returns st)
   \<and> (\<exists>st. Matrix_operator_divide False 0 int_quotient 1 2 [[6, 9 :: int]] 3 [[7, 7]] = Returns st)
   \<and> \<not> (\<exists>e st. Matrix_operator_divide False 0 int_quotient 1 2 [[6, 9 :: int]] 0 [[7, 7]] = Throws e st
            \<and> OutOfRange e)
   \<and> (\<exists>st. Tensor3D_operator_plus 1 1 2 [[[5, 6]]] [[[5, 6 :: int]]] [[[7, 7]]] = Returns st)
   \<and> (\<exists>st. Tensor3D_operator_times 1 1 2 [[[5, 6 :: int]]] 3 [[[7, 7]]] = Returns st)
   \<and> (\<exists>st. Tensor3D_operator_divide False 0 int_quotient 1 1 2 [[[5, 6 :: int]]] 3 [[[7, 7]]] = Returns st)
   \<and> \<not> (\<exists>e st. Tensor3D_operator_divide False 0 int_quotient 1 1 2 [[[5, 6 :: int]]] 0 [[[7, 7]]] = Throws e st
            \<and> OutOfRange e)"
proof -
  have h: "Matrix_shape 1 1 [[7 :: int]]" "Matrix_shape 1 2 [[7, 7 :: int]]"
    "Tensor3D_shape 1 1 2 [[[7, 7 :: int]]]"
    by (simp_all add: Matrix_shape_def Tensor3D_shape_def)
  note prod = operators_never_out_of_range [OF h, where OtherRows = 2
      and A = "[[1, 2 :: int]]" and B = "[[3], [4 :: int]]"]
  note sums = operators_never_out_of_range [OF h, where A = "[[1, 2 :: int]]" and B = "[[3, 4 :: int]]"]
  note quot = operators_never_out_of_range [OF h, where A = "[[6, 9 :: int]]"
      and T = "[[[5, 6 :: int]]]" and U = "[[[5, 6 :: int]]]"
      and is_floating_point = False and epsilon = 0 and divide_T = int_quotient and s = 3]
  note zero = operators_never_out_of_range [OF h, where A = "[[6, 9 :: int]]"
      and T = "[[[5, 6 :: int]]]" and is_floating_point = False and epsilon = 0 and divide_T = int_quotient and s = 0]
  have "\<exists>st. Matrix_operator_times 1 2 2 1 [[1, 2]] [[3], [4 :: int]] [[7]] = Returns st"
    using prod by simp
  moreover have "\<exists>st. Matrix_operator_plus 1 2 [[1, 2]] [[3, 4 :: int]] [[7, 7]] = Returns st"
    and "\<exists>st. Matrix_operator_minus 1 2 [[1, 2]] [[3, 4 :: int]] [[7, 7]] = Returns st"
    using sums by blast+
  moreover have "\<exists>st. Matrix_operator_divide False 0 int_quotient 1 2 [[6, 9 :: int]] 3 [[7, 7]] = Returns st"
    and "\<exists>st. Tensor3D_operator_divide False 0 int_quotient 1 1 2 [[[5, 6 :: int]]] 3 [[[7, 7]]] = Returns st"
    using quot by simp_all
  moreover have "\<exists>st. Tensor3D_operator_plus 1 1 2 [[[5, 6]]] [[[5, 6 :: int]]] [[[7, 7]]] = Returns st"
    and "\<exists>st. Tensor3D_operator_times 1 1 2 [[[5, 6 :: int]]] 3 [[[7, 7]]] = Returns st"
    using quot by blast+
  moreover have "\<not> (\<exists>e st. Matrix_operator_divide False 0 int_quotient 1 2 [[6, 9 :: int]] 0 [[7, 7]] = Throws e st
            \<and> OutOfRange e)"
    and "\<not> (\<exists>e st. Tensor3D_operator_divide False 0 int_quotient 1 1 2 [[[5, 6 :: int]]] 0 [[[7, 7]]] = Throws e st
            \<and> OutOfRange e)"
    using zero by blast+
  ultimately show ?thesis using h by simp
qed

text \<open>
  C10. populate takes arguments of any type that \<^verbatim>\<open>static_cast<T>\<close> converts, and what
  each cell receives is the converted argument: cell \<open>(r, c)\<close> of a Matrix holds
  \<^verbatim>\<open>static_cast<T>\<close> of argument \<open>r * Cols + c\<close>, and likewise for a Tensor3D. With
  integer cells and floating-point arguments the conversion discards the fraction, so
  the cells hold the arguments truncated toward zero, not the arguments.
\<close>

theorem populate_converts_arguments:
  assumes "Matrix_shape Rows Cols data" and "length args = Rows * Cols"
    and "Tensor3D_shape Depth TRows TCols tdata" and "length targs = Depth * TRows * TCols"
  shows "(\<exists>m. Matrix_populate Rows Cols static_cast args data = Returns m
            \<and> (\<forall>r<Rows. \<forall>c<Cols.
                  Matrix_at Rows Cols m r c = Inr (static_cast (args ! (r * Cols + c)))))
       \<and> (\<exists>t. Tensor3D_populate Depth TRows TCols static_cast targs tdata = Returns t
            \<and> (\<forall>d<Depth. \<forall>r<TRows. \<forall>c<TCols.
                  Tensor3D_at Depth TRows TCols t d r c
                  = Inr (static_cast (targs ! ((d * TRows + r) * TCols + c)))))"
proof -
  have "r * Cols + c < length args" if "r < Rows" "c < Cols" for r c
    using that assms(2) by (simp add: cell_index_Matrix)
  moreover have "(d * TRows + r) * TCols + c < length targs"
    if "d < Depth" "r < TRows" "c < TCols" for d r c
    using that assms(4) by (simp add: cell_index_Tensor3D)
  ultimately show ?thesis
    by (simp add: Matrix_populate_eq [OF assms(1,2)] Tensor3D_populate_eq [OF assms(3,4)]
        Matrix_at_tabulate Tensor3D_at_tabulate)
qed

theorem populate_converts_arguments_witness:
  "Matrix_shape 2 2 [[0, 0], [0, 0 :: int]] \<and> length [1.7, -2.5, 3, -0.9 :: real] = 2 * 2
   \<and> Tensor3D_shape 1 1 1 [[[0 :: int]]] \<and> length [-7.99 :: real] = 1 * 1 * 1
   \<and> (\<exists>m. Matrix_populate 2 2 static_cast_double_to_int [1.7, -2.5, 3, -0.9] [[0, 0], [0, 0]] = Returns m
          \<and> Matrix_at 2 2 m 0 0 = Inr 1 \<and> Matrix_at 2 2 m 0 1 = Inr (-2)
          \<and> Matrix_at 2 2 m 1 0 = Inr 3 \<and> Matrix_at 2 2 m 1 1 = Inr 0)
   \<and> (\<exists>t. Tensor3D_populate 1 1 1 static_cast_double_to_int [-7.99] [[[0]]] = Returns t
          \<and> Tensor3D_at 1 1 1 t 0 0 0 = Inr (-7))"
proof -
  have h: "Matrix_shape 2 2 [[0, 0], [0, 0 :: int]]" "length [1.7, -2.5, 3, -0.9 :: real] = 2 * 2"
    "Tensor3D_shape 1 1 1 [[[0 :: int]]]" "length [-7.99 :: real] = 1 * 1 * 1"
    by (simp_all add: Matrix_shape_def Tensor3D_shape_def)
  note inst = populate_converts_arguments [OF h, of static_cast_double_to_int]
  from inst [THEN conjunct1]
  obtain m where m: "Matrix_populate 2 2 static_cast_double_to_int [1.7, -2.5, 3, -0.9] [[0, 0], [0, 0]] = Returns m"
      "\<forall>r<2. \<forall>c<2. Matrix_at 2 2 m r c
         = Inr (static_cast_double_to_int ([1.7, -2.5, 3, -0.9] ! (r * 2 + c)))"
    by blast
  from inst [THEN conjunct2]
  obtain t where t: "Tensor3D_populate 1 1 1 static_cast_double_to_int [-7.99] [[[0]]] = Returns t"
      "\<forall>d<1. \<forall>r<1. \<forall>c<1. Tensor3D_at 1 1 1 t d r c
         = Inr (static_cast_double_to_int ([-7.99] ! ((d * 1 + r) * 1 + c)))"
    by blast
  have c: "static_cast_double_to_int 1.7 = 1" "static_cast_double_to_int (-2.5) = -2"
    "static_cast_double_to_int 3 = 3" "static_cast_double_to_int (-0.9) = 0"
    "static_cast_double_to_int (-7.99) = -7"
    by (simp_all add: static_cast_double_to_int_def)
  from m(2) have "Matrix_at 2 2 m 0 0 = Inr 1" "Matrix_at 2 2 m 0 1 = Inr (-2)"
    "Matrix_at 2 2 m 1 0 = Inr 3" "Matrix_at 2 2 m 1 1 = Inr 0"
    using c by simp_all
  moreover from t(2) have "Tensor3D_at 1 1 1 t 0 0 0 = Inr (-7)"
    using c by simp
  ultimately show ?thesis using h m(1) t(1) by simp
qed

end
